theory Spec2Isabelle
  imports Complex_Main
begin

section \<open>Errors and tokenizers\<close>

text \<open>
  Exceptions of the Python run-time that the modelled functions can raise. They are
  values: a function that can raise returns \<open>error + 'a\<close>, with \<open>Inl\<close> the exception.
\<close>

datatype error =
    AssertionError
  | IndexError
  | KeyError
  | TypeError
  | ValueError
  | RuntimeError
  | AttributeError
  | UnpicklingError
  | Exception
  | FileNotFoundError
  | Unmodelled

text \<open>
  \<open>Unmodelled\<close> is not an exception of Python: it marks the inputs on which the model
  below does not describe the tensor library (a result that is \<open>nan\<close> or infinite, the
  broadcasting of tensors of unequal shape). Nothing is claimed about the code there.
\<close>

text \<open>
  A tokenizer of the \<open>tokenizers\<close> library as \<open>train.py\<close> uses it: a word-level model
  with its token for unknown words, the pre-tokenizer, the special tokens that training
  added, and the vocabulary, where the id of a token is its position.
\<close>

datatype pre_tokenizer = NoPreTokenizer | Whitespace

record tokenizer =
  unk_token :: string
  pre_tokenizer :: pre_tokenizer
  special_tokens :: "string list"
  vocab :: "string list"

fun index_of :: "'a \<Rightarrow> 'a list \<Rightarrow> nat option" where
  "index_of x [] = None"
| "index_of x (y # ys) =
     (if x = y then Some 0 else map_option Suc (index_of x ys))"

text \<open>\<open>Tokenizer.token_to_id\<close>: the id of the token, \<open>None\<close> when it is not in the vocabulary.\<close>

definition token_to_id :: "tokenizer \<Rightarrow> string \<Rightarrow> int option" where
  "token_to_id tk s = map_option int (index_of s (vocab tk))"

definition get_vocab_size :: "tokenizer \<Rightarrow> nat" where
  "get_vocab_size tk = length (vocab tk)"

section \<open>The distillation loss\<close>

text \<open>
  Floating-point tensors are read as lists of real numbers: a matrix of logits is the list
  of its rows, one row per label position, one entry per vocabulary entry. Rounding,
  overflow and \<open>nan\<close> are outside this reading.
\<close>

definition softmax :: "real list \<Rightarrow> real list" where
  "softmax xs = map (\<lambda>x. exp x / sum_list (map exp xs)) xs"

definition log_softmax :: "real list \<Rightarrow> real list" where
  "log_softmax xs = map (\<lambda>x. x - ln (sum_list (map exp xs))) xs"

text \<open>\<open>logits / temperature\<close>, entry by entry.\<close>

definition tensor_div :: "real list list \<Rightarrow> real \<Rightarrow> real list list" where
  "tensor_div t c = map (map (\<lambda>x. x / c)) t"

definition xlogy :: "real \<Rightarrow> real \<Rightarrow> real" where
  "xlogy x y = (if x = 0 then 0 else x * ln y)"

text \<open>
  \<open>nn.KLDivLoss(reduction='batchmean')(input, target)\<close>: the input holds
  log-probabilities, the target probabilities; the pointwise terms
  \<open>xlogy(target, target) - target * input\<close> are summed and divided by the size of the
  first dimension of the input.
\<close>

definition kl_pointwise :: "real \<Rightarrow> real \<Rightarrow> real" where
  "kl_pointwise x t = xlogy t t - t * x"

definition KLDivLoss_batchmean :: "real list list \<Rightarrow> real list list \<Rightarrow> error + real" where
  "KLDivLoss_batchmean input target =
     (if map length input \<noteq> map length target \<or> input = [] then Inl Unmodelled
      else Inr (sum_list (map (\<lambda>(r, tr). sum_list (map (\<lambda>(x, t). kl_pointwise x t) (zip r tr)))
                           (zip input target))
                / real (length input)))"

text \<open>
  \<open>nn.CrossEntropyLoss(ignore_index=ignore_index)(input, target)\<close> with the mean
  reduction: positions whose label is \<open>ignore_index\<close> are dropped, every other label must
  be a class index of its row, and the negative log-probabilities of the labels are
  averaged over the positions that were kept.
\<close>

definition CrossEntropyLoss :: "int \<Rightarrow> real list list \<Rightarrow> int list \<Rightarrow> error + real" where
  "CrossEntropyLoss ignore_index input target =
     (if length input \<noteq> length target then Inl ValueError
      else
        (let kept = filter (\<lambda>(row, l). l \<noteq> ignore_index) (zip input target)
         in if list_ex (\<lambda>(row, l). l < 0 \<or> int (length row) \<le> l) kept then Inl IndexError
            else if kept = [] then Inl Unmodelled
            else Inr (sum_list (map (\<lambda>(row, l). - (log_softmax row ! nat l)) kept)
                      / real (length kept))))"

text \<open>The default \<open>ignore_index\<close> of \<open>nn.CrossEntropyLoss()\<close>.\<close>

definition default_ignore_index :: int where
  "default_ignore_index = - 100"

definition knowledge_distillation_loss ::
  "real list list \<Rightarrow> real list list \<Rightarrow> int list \<Rightarrow> real \<Rightarrow> real \<Rightarrow> error + real" where
  "knowledge_distillation_loss student_logits teacher_logits labels temperature alpha =
     (if temperature = 0 then Inl Unmodelled
      else
        (case KLDivLoss_batchmean
                (map log_softmax (tensor_div student_logits temperature))
                (map softmax (tensor_div teacher_logits temperature)) of
           Inl e \<Rightarrow> Inl e
         | Inr kl \<Rightarrow>
             (let distillation_loss = kl * temperature ^ 2
              in case CrossEntropyLoss default_ignore_index student_logits labels of
                   Inl e \<Rightarrow> Inl e
                 | Inr ce_loss \<Rightarrow> Inr (alpha * ce_loss + (1 - alpha) * distillation_loss))))"

text \<open>
  The loss as the specification words it: the cross-entropy of the student against the
  labels, and the Kullback-Leibler divergence of the softened teacher distribution from
  the softened student distribution, averaged over the rows.
\<close>

definition kl_divergence :: "real list \<Rightarrow> real list \<Rightarrow> real" where
  "kl_divergence p q = sum_list (map (\<lambda>(pj, qj). pj * ln (pj / qj)) (zip p q))"

definition spec_cross_entropy :: "real list list \<Rightarrow> int list \<Rightarrow> real" where
  "spec_cross_entropy logits labels =
     sum_list (map (\<lambda>(row, l). - ln (softmax row ! nat l)) (zip logits labels))
     / real (length logits)"

definition spec_distillation :: "real list list \<Rightarrow> real list list \<Rightarrow> real \<Rightarrow> real" where
  "spec_distillation student_logits teacher_logits temperature =
     sum_list (map (\<lambda>(s, t). kl_divergence (softmax (map (\<lambda>x. x / temperature) t))
                                            (softmax (map (\<lambda>x. x / temperature) s)))
                   (zip student_logits teacher_logits))
     / real (length student_logits)"

definition spec_loss ::
  "real list list \<Rightarrow> real list list \<Rightarrow> int list \<Rightarrow> real \<Rightarrow> real \<Rightarrow> real" where
  "spec_loss student_logits teacher_logits labels temperature alpha =
     alpha * spec_cross_entropy student_logits labels
     + (1 - alpha) * (temperature ^ 2 * spec_distillation student_logits teacher_logits temperature)"

section \<open>Data of the training program\<close>

text \<open>
  One item of \<open>BilingualDataset\<close> (\<open>dataset.py\<close>); a batch of the data loader is the list of
  its items, so \<open>batch["encoder_input"]\<close> is \<open>map ex_encoder_input batch\<close> and its size in
  dimension 0 is the length of the list. The masks are kept abstract (\<open>'m\<close>).
\<close>

record 'm example =
  ex_encoder_input :: "int list"
  ex_decoder_input :: "int list"
  ex_encoder_mask :: 'm
  ex_decoder_mask :: 'm
  ex_label :: "int list"
  ex_src_text :: string
  ex_tgt_text :: string

text \<open>An item of the raw dataset: \<open>item['translation']\<close> maps a language to a sentence.\<close>

type_synonym raw_item = "(string \<times> string) list"

text \<open>
  The configuration dictionary of \<open>config.py\<close>, one field per key that \<open>train.py\<close> reads.
  \<open>temperature\<close> and \<open>alpha\<close> are read with \<open>config.get\<close> and may be absent.
\<close>

record config =
  cfg_tokenizer_file :: string
  cfg_datasource :: string
  cfg_lang_src :: string
  cfg_lang_tgt :: string
  cfg_seq_len :: int
  cfg_d_model :: int
  cfg_batch_size :: int
  cfg_num_epochs :: int
  cfg_lr :: real
  cfg_preload :: "string option"
  cfg_model_folder :: string
  cfg_experiment_name :: string
  cfg_temperature :: "real option"
  cfg_alpha :: "real option"

text \<open>
  The transformer of \<open>model.py\<close> as \<open>train.py\<close> sees it: the three methods, on batches.
  \<open>decode\<close> returns, for each row of the batch, one hidden vector per decoder position;
  \<open>project\<close> acts on each position and gives one score per entry of the target vocabulary.
\<close>

record ('m, 'enc, 'h) seq2seq =
  encode :: "int list list \<Rightarrow> 'm list \<Rightarrow> 'enc"
  decode :: "'enc \<Rightarrow> 'm list \<Rightarrow> int list list \<Rightarrow> 'm list \<Rightarrow> 'h list list"
  project :: "'h \<Rightarrow> real list"

text \<open>
  Weights live in a store of tensors; a module holds the addresses of its named parameters,
  so that the optimizer and the module refer to the same cells. Every cell has its
  gradient (\<open>None\<close> when there is none). A tensor of weights is the list of its entries,
  its shape is its length.
\<close>

type_synonym addr = nat
type_synonym tensor = "real list"
type_synonym state_dict = "(string \<times> tensor) list"

record store =
  cells :: "addr \<Rightarrow> tensor"
  grads :: "addr \<Rightarrow> tensor option"
  next_addr :: addr

datatype builder = build_transformer | build_student_transformer

text \<open>The arguments of a call of \<open>build_transformer\<close> or \<open>build_student_transformer\<close>.\<close>

record hyper =
  builder :: builder
  src_vocab_size :: nat
  tgt_vocab_size :: nat
  src_seq_len :: int
  tgt_seq_len :: int
  d_model :: int

record module =
  hyper :: hyper
  named_parameters :: "(string \<times> addr) list"
  training :: bool

datatype layer_kind = Linear | Embedding | LayerNorm
datatype dtype = qint8 | float16 | float32

record 'o optimizer =
  opt_params :: "addr list"
  opt_lr :: real
  opt_eps :: real
  opt_state :: 'o

record 'o optimizer_state_dict =
  sd_state :: 'o
  sd_param_count :: nat
  sd_lr :: real
  sd_eps :: real

text \<open>
  The dictionary that \<open>train_model\<close> saves after an epoch, with its keys \<open>epoch\<close>,
  \<open>model_state_dict\<close>, \<open>optimizer_state_dict\<close> and \<open>global_step\<close>.
\<close>

record 'o checkpoint =
  ck_epoch :: int
  ck_model_state_dict :: state_dict
  ck_optimizer_state_dict :: "'o optimizer_state_dict"
  ck_global_step :: int

datatype 'o file_content =
    TokenizerFile tokenizer
  | CheckpointFile "'o checkpoint"
  | StateDictFile state_dict

text \<open>
  The file system: paths with their contents, the newest entry of a path first.
  Directories are not modelled.
\<close>

type_synonym 'o filesystem = "(string \<times> 'o file_content) list"

definition exists_path :: "'o filesystem \<Rightarrow> string \<Rightarrow> bool" where
  "exists_path fs p = (map_of fs p \<noteq> None)"

definition write_file :: "'o filesystem \<Rightarrow> string \<Rightarrow> 'o file_content \<Rightarrow> 'o filesystem" where
  "write_file fs p f = (p, f) # fs"

text \<open>What the run leaves outside the process, in order.\<close>

datatype 'o effect =
    TorchSave string "'o file_content"
  | QuantizeDynamic "layer_kind list" dtype
  | AddScalar string real int

record bilingual_dataset =
  ds_items :: "raw_item list"
  ds_tokenizer_src :: tokenizer
  ds_tokenizer_tgt :: tokenizer
  ds_src_lang :: string
  ds_tgt_lang :: string
  ds_seq_len :: int

record dataloader =
  dl_dataset :: bilingual_dataset
  dl_batch_size :: int
  dl_shuffle :: bool

text \<open>
  Everything \<open>train.py\<close> imports and calls without defining it: the other modules of the
  repository (\<open>model.py\<close>, \<open>dataset.py\<close>, \<open>config.py\<close>) and the libraries. Each is a
  parameter of the model; the random choices of a run (initial weights, shuffling,
  dropout) are fixed inside these functions.
\<close>

record ('m, 'enc, 'h, 'o) env =
  causal_mask :: "nat \<Rightarrow> 'm"
  network :: "hyper \<Rightarrow> bool \<Rightarrow> state_dict \<Rightarrow> ('m, 'enc, 'h) seq2seq"
  init_state_dict :: "hyper \<Rightarrow> state_dict"
  autograd :: "(state_dict \<Rightarrow> error + real) \<Rightarrow> state_dict \<Rightarrow> tensor option list"
  adam_init :: 'o
  adam_step :: "real \<Rightarrow> real \<Rightarrow> 'o \<Rightarrow> tensor list \<Rightarrow> tensor option list \<Rightarrow> tensor list \<times> 'o"
  quantize_dynamic :: "layer_kind list \<Rightarrow> dtype \<Rightarrow> state_dict \<Rightarrow> state_dict"
  get_weights_file_path :: "config \<Rightarrow> string \<Rightarrow> string"
  latest_weights_file_path :: "config \<Rightarrow> string list \<Rightarrow> string option"
  load_dataset :: "string \<Rightarrow> string \<Rightarrow> raw_item list"
  random_split :: "raw_item list \<Rightarrow> nat \<Rightarrow> nat \<Rightarrow> raw_item list \<times> raw_item list"
  getitem :: "bilingual_dataset \<Rightarrow> nat \<Rightarrow> error + 'm example"
  sampler :: "nat \<Rightarrow> nat \<Rightarrow> nat list"
  str_format :: "string \<Rightarrow> string \<Rightarrow> string"
  word_level_train :: "string list \<Rightarrow> nat \<Rightarrow> string list \<Rightarrow> string list"
  tokenizer_decode :: "tokenizer \<Rightarrow> int list \<Rightarrow> string"
  char_error_rate :: "string list \<Rightarrow> string list \<Rightarrow> real"
  word_error_rate :: "string list \<Rightarrow> string list \<Rightarrow> real"
  bleu_score :: "string list \<Rightarrow> string list \<Rightarrow> real"

section \<open>Greedy decoding\<close>

text \<open>
  \<open>out[:, -1]\<close>: the last position of every row of the batch; an \<open>IndexError\<close> when the
  rows have no position.
\<close>

definition select_last :: "'h list list \<Rightarrow> error + 'h list" where
  "select_last out =
     (if out = [] then Inl Unmodelled
      else if list_ex (\<lambda>row. row = []) out then Inl IndexError
      else Inr (map last out))"

text \<open>
  \<open>torch.max(prob, dim=1)\<close>: for every row its maximal value and the index of the first
  occurrence of that value; it raises on rows without entries.
\<close>

fun argmax_from :: "real \<Rightarrow> nat \<Rightarrow> nat \<Rightarrow> real list \<Rightarrow> real \<times> nat" where
  "argmax_from best bi i [] = (best, bi)"
| "argmax_from best bi i (x # xs) =
     (if best < x then argmax_from x i (Suc i) xs else argmax_from best bi (Suc i) xs)"

fun max_row :: "real list \<Rightarrow> real \<times> nat" where
  "max_row [] = (0, 0)"
| "max_row (x # xs) = argmax_from x 0 1 xs"

definition torch_max_dim1 :: "real list list \<Rightarrow> error + (real \<times> nat) list" where
  "torch_max_dim1 prob =
     (if list_ex (\<lambda>row. row = []) prob then Inl IndexError else Inr (map max_row prob))"

text \<open>\<open>tensor.item()\<close>: the value of a tensor with exactly one element.\<close>

definition tensor_item :: "'a list \<Rightarrow> error + 'a" where
  "tensor_item t = (case t of [x] \<Rightarrow> Inr x | _ \<Rightarrow> Inl RuntimeError)"

text \<open>
  One pass through the body of the \<open>while True\<close> loop up to \<open>next_word.item()\<close>. The
  decoder input is the one row of the tensor of shape \<open>(1, len)\<close>.
\<close>

definition next_word ::
  "('m, 'enc, 'h, 'o) env \<Rightarrow> ('m, 'enc, 'h) seq2seq \<Rightarrow> 'enc \<Rightarrow> 'm list \<Rightarrow> int list
     \<Rightarrow> error + int" where
  "next_word env model encoder_output source_mask decoder_input =
     (let decoder_mask = [causal_mask env (length decoder_input)];
          out = decode model encoder_output source_mask [decoder_input] decoder_mask
      in case select_last out of
           Inl e \<Rightarrow> Inl e
         | Inr hs \<Rightarrow>
             (case torch_max_dim1 (map (project model) hs) of
                Inl e \<Rightarrow> Inl e
              | Inr mx \<Rightarrow>
                  (case tensor_item (map snd mx) of
                     Inl e \<Rightarrow> Inl e
                   | Inr w \<Rightarrow> Inr (int w))))"

text \<open>
  The loop. It may run forever (when \<open>max_len\<close> is below the current length and no
  end-of-sequence token is produced), so not returning is the value \<open>None\<close>.
  \<open>eos_idx\<close> is \<open>None\<close> when the tokenizer has no \<open>[EOS]\<close>; the comparison of the tensor
  with it is then false.
\<close>

partial_function (option) greedy_loop ::
  "('m, 'enc, 'h, 'o) env \<Rightarrow> ('m, 'enc, 'h) seq2seq \<Rightarrow> 'enc \<Rightarrow> 'm list \<Rightarrow> int option \<Rightarrow> int
     \<Rightarrow> int list \<Rightarrow> (error + int list) option" where
  "greedy_loop env model encoder_output source_mask eos_idx max_len decoder_input =
     (if int (length decoder_input) = max_len then Some (Inr decoder_input)
      else
        (case next_word env model encoder_output source_mask decoder_input of
           Inl e \<Rightarrow> Some (Inl e)
         | Inr w \<Rightarrow>
             (if Some w = eos_idx then Some (Inr (decoder_input @ [w]))
              else greedy_loop env model encoder_output source_mask eos_idx max_len
                     (decoder_input @ [w]))))"

definition greedy_decode ::
  "('m, 'enc, 'h, 'o) env \<Rightarrow> ('m, 'enc, 'h) seq2seq \<Rightarrow> int list list \<Rightarrow> 'm list
     \<Rightarrow> tokenizer \<Rightarrow> tokenizer \<Rightarrow> int \<Rightarrow> (error + int list) option" where
  "greedy_decode env model source source_mask tokenizer_src tokenizer_tgt max_len =
     (let sos_idx = token_to_id tokenizer_tgt ''[SOS]'';
          eos_idx = token_to_id tokenizer_tgt ''[EOS]'';
          encoder_output = encode model source source_mask
      in case sos_idx of
           None \<Rightarrow> Some (Inl TypeError)
         | Some sos \<Rightarrow>
             greedy_loop env model encoder_output source_mask eos_idx max_len [sos])"

section \<open>Data loaders and validation\<close>

function chunks :: "nat \<Rightarrow> 'a list \<Rightarrow> 'a list list" where
  "chunks n xs = (if n = 0 \<or> xs = [] then [] else take n xs # chunks n (drop n xs))"
  by pat_completeness auto
termination
  by (relation "measure (\<lambda>(n, xs). length xs)") auto

declare chunks.simps [simp del]

text \<open>\<open>DataLoader(dataset, batch_size=..., shuffle=...)\<close> rejects a batch size below 1.\<close>

definition DataLoader :: "bilingual_dataset \<Rightarrow> int \<Rightarrow> bool \<Rightarrow> error + dataloader" where
  "DataLoader dataset batch_size shuffle =
     (if batch_size \<le> 0 then Inl ValueError
      else Inr \<lparr>dl_dataset = dataset, dl_batch_size = batch_size, dl_shuffle = shuffle\<rparr>)"

text \<open>
  One iteration over a loader: the indices of the dataset, in the order the sampler gives
  them at its \<open>draw\<close>-th use when the loader shuffles, cut into batches. The items are
  fetched batch by batch while the loop runs.
\<close>

definition batch_indices :: "('m, 'enc, 'h, 'o) env \<Rightarrow> nat \<Rightarrow> dataloader \<Rightarrow> nat list list" where
  "batch_indices env draw dl =
     (let n = length (ds_items (dl_dataset dl))
      in chunks (nat (dl_batch_size dl))
           (if dl_shuffle dl then sampler env draw n else [0..<n]))"

fun fetch :: "('m, 'enc, 'h, 'o) env \<Rightarrow> bilingual_dataset \<Rightarrow> nat list \<Rightarrow> error + 'm example list" where
  "fetch env d [] = Inr []"
| "fetch env d (i # rest) =
     (case getitem env d i of
        Inl e \<Rightarrow> Inl e
      | Inr x \<Rightarrow> (case fetch env d rest of Inl e \<Rightarrow> Inl e | Inr xs \<Rightarrow> Inr (x # xs)))"

text \<open>
  The loop of \<open>run_validation\<close> over the batches; the accumulator holds \<open>source_texts\<close>,
  \<open>expected\<close> and \<open>predicted\<close>. Printing is left out.
\<close>

fun validation_loop ::
  "('m, 'enc, 'h, 'o) env \<Rightarrow> ('m, 'enc, 'h) seq2seq \<Rightarrow> bilingual_dataset \<Rightarrow> tokenizer
     \<Rightarrow> tokenizer \<Rightarrow> int \<Rightarrow> int \<Rightarrow> int \<Rightarrow> string list \<times> string list \<times> string list
     \<Rightarrow> nat list list \<Rightarrow> (error + string list \<times> string list \<times> string list) option" where
  "validation_loop env model d tokenizer_src tokenizer_tgt max_len num_examples count acc [] =
     Some (Inr acc)"
| "validation_loop env model d tokenizer_src tokenizer_tgt max_len num_examples count acc
     (idxs # rest) =
     (case fetch env d idxs of
        Inl e \<Rightarrow> Some (Inl e)
      | Inr batch \<Rightarrow>
          (let count = count + 1;
               encoder_input = map ex_encoder_input batch;
               encoder_mask = map ex_encoder_mask batch
           in if length encoder_input \<noteq> 1 then Some (Inl AssertionError)
              else
                (case greedy_decode env model encoder_input encoder_mask
                        tokenizer_src tokenizer_tgt max_len of
                   None \<Rightarrow> None
                 | Some (Inl e) \<Rightarrow> Some (Inl e)
                 | Some (Inr model_out) \<Rightarrow>
                     (let source_text = ex_src_text (hd batch);
                          target_text = ex_tgt_text (hd batch);
                          model_out_text = tokenizer_decode env tokenizer_tgt model_out;
                          acc = (case acc of (source_texts, expected, predicted) \<Rightarrow>
                                   (source_texts @ [source_text], expected @ [target_text],
                                    predicted @ [model_out_text]))
                      in if count = num_examples then Some (Inr acc)
                         else validation_loop env model d tokenizer_src tokenizer_tgt max_len
                                num_examples count acc rest))))"

definition state_dict :: "module \<Rightarrow> store \<Rightarrow> state_dict" where
  "state_dict m st = map (\<lambda>(name, a). (name, cells st a)) (named_parameters m)"

text \<open>
  \<open>run_validation\<close>: the module is put in evaluation mode, the loop runs on its current
  weights, and the three metrics are written when there is a writer. It returns the
  module and the scalars written.
\<close>

definition run_validation ::
  "('m, 'enc, 'h, 'o) env \<Rightarrow> module \<Rightarrow> store \<Rightarrow> dataloader \<Rightarrow> nat \<Rightarrow> tokenizer \<Rightarrow> tokenizer
     \<Rightarrow> int \<Rightarrow> int \<Rightarrow> bool \<Rightarrow> int \<Rightarrow> (error + module \<times> 'o effect list) option" where
  "run_validation env model st validation_ds draw tokenizer_src tokenizer_tgt max_len
     global_step writer num_examples =
     (let model = model\<lparr>training := False\<rparr>;
          net = network env (hyper model) (training model) (state_dict model st)
      in case validation_loop env net (dl_dataset validation_ds) tokenizer_src tokenizer_tgt
                max_len num_examples 0 ([], [], []) (batch_indices env draw validation_ds) of
           None \<Rightarrow> None
         | Some (Inl e) \<Rightarrow> Some (Inl e)
         | Some (Inr (source_texts, expected, predicted)) \<Rightarrow>
             Some (Inr (model,
               if writer
               then [AddScalar ''validation cer'' (char_error_rate env predicted expected)
                       global_step,
                     AddScalar ''validation wer'' (word_error_rate env predicted expected)
                       global_step,
                     AddScalar ''validation BLEU'' (bleu_score env predicted expected)
                       global_step]
               else [])))"

section \<open>Tokenizers and datasets\<close>

fun get_all_sentences :: "raw_item list \<Rightarrow> string \<Rightarrow> error + string list" where
  "get_all_sentences [] lang = Inr []"
| "get_all_sentences (item # rest) lang =
     (case map_of item lang of
        None \<Rightarrow> Inl KeyError
      | Some sentence \<Rightarrow>
          (case get_all_sentences rest lang of
             Inl e \<Rightarrow> Inl e
           | Inr sentences \<Rightarrow> Inr (sentence # sentences)))"

definition from_file :: "'o filesystem \<Rightarrow> string \<Rightarrow> error + tokenizer" where
  "from_file fs p =
     (case map_of fs p of
        None \<Rightarrow> Inl FileNotFoundError
      | Some (TokenizerFile t) \<Rightarrow> Inr t
      | Some _ \<Rightarrow> Inl Exception)"

definition get_or_build_tokenizer ::
  "('m, 'enc, 'h, 'o) env \<Rightarrow> config \<Rightarrow> 'o filesystem \<Rightarrow> raw_item list \<Rightarrow> string
     \<Rightarrow> error + tokenizer \<times> 'o filesystem" where
  "get_or_build_tokenizer env config fs dataset lang =
     (let tokenizer_path = str_format env (cfg_tokenizer_file config) lang
      in if \<not> exists_path fs tokenizer_path
         then
           (case get_all_sentences dataset lang of
              Inl e \<Rightarrow> Inl e
            | Inr sentences \<Rightarrow>
                (let tokenizer =
                       \<lparr>unk_token = ''[UNK]'', pre_tokenizer = Whitespace,
                        special_tokens = [''[UNK]'', ''[PAD]'', ''[SOS]'', ''[EOS]''],
                        vocab = word_level_train env
                                  [''[UNK]'', ''[PAD]'', ''[SOS]'', ''[EOS]''] 2 sentences\<rparr>
                 in Inr (tokenizer, write_file fs tokenizer_path (TokenizerFile tokenizer))))
         else
           (case from_file fs tokenizer_path of
              Inl e \<Rightarrow> Inl e
            | Inr tokenizer \<Rightarrow> Inr (tokenizer, fs)))"

text \<open>
  \<open>get_ds\<close>. \<open>int(0.9 * len(ds_raw))\<close> is nine tenths rounded down. The loop that measures
  the longest sentences only prints; what remains of it is the look-up of both languages
  in every item.
\<close>

definition get_ds ::
  "('m, 'enc, 'h, 'o) env \<Rightarrow> config \<Rightarrow> 'o filesystem
     \<Rightarrow> error + dataloader \<times> dataloader \<times> tokenizer \<times> tokenizer \<times> 'o filesystem" where
  "get_ds env config fs =
     (let ds_raw = load_dataset env (cfg_datasource config)
                     (cfg_lang_src config @ ''-'' @ cfg_lang_tgt config)
      in case get_or_build_tokenizer env config fs ds_raw (cfg_lang_src config) of
           Inl e \<Rightarrow> Inl e
         | Inr (tokenizer_src, fs) \<Rightarrow>
        (case get_or_build_tokenizer env config fs ds_raw (cfg_lang_tgt config) of
           Inl e \<Rightarrow> Inl e
         | Inr (tokenizer_tgt, fs) \<Rightarrow>
        (let train_ds_size = (9 * length ds_raw) div 10;
             val_ds_size = length ds_raw - train_ds_size;
             (train_ds_raw, val_ds_raw) = random_split env ds_raw train_ds_size val_ds_size;
             train_ds = \<lparr>ds_items = train_ds_raw, ds_tokenizer_src = tokenizer_src,
                         ds_tokenizer_tgt = tokenizer_tgt, ds_src_lang = cfg_lang_src config,
                         ds_tgt_lang = cfg_lang_tgt config, ds_seq_len = cfg_seq_len config\<rparr>;
             val_ds = \<lparr>ds_items = val_ds_raw, ds_tokenizer_src = tokenizer_src,
                       ds_tokenizer_tgt = tokenizer_tgt, ds_src_lang = cfg_lang_src config,
                       ds_tgt_lang = cfg_lang_tgt config, ds_seq_len = cfg_seq_len config\<rparr>
         in if isl (get_all_sentences ds_raw (cfg_lang_src config))
               \<or> isl (get_all_sentences ds_raw (cfg_lang_tgt config))
            then Inl KeyError
            else
              (case DataLoader train_ds (cfg_batch_size config) True of
                 Inl e \<Rightarrow> Inl e
               | Inr train_dataloader \<Rightarrow>
              (case DataLoader val_ds 1 True of
                 Inl e \<Rightarrow> Inl e
               | Inr val_dataloader \<Rightarrow>
                   Inr (train_dataloader, val_dataloader, tokenizer_src, tokenizer_tgt, fs))))))"

section \<open>Modules, optimizer and checkpoints\<close>

definition write_cells :: "(addr \<Rightarrow> 'a) \<Rightarrow> (addr \<times> 'a) list \<Rightarrow> (addr \<Rightarrow> 'a)" where
  "write_cells c ws = foldl (\<lambda>c (a, t). c(a := t)) c ws"

text \<open>
  Building a module allocates one fresh cell per parameter, in training mode, without
  gradients.
\<close>

definition new_module :: "('m, 'enc, 'h, 'o) env \<Rightarrow> store \<Rightarrow> hyper \<Rightarrow> module \<times> store" where
  "new_module env st h =
     (let sd = init_state_dict env h;
          addrs = [next_addr st ..< next_addr st + length sd]
      in (\<lparr>hyper = h, named_parameters = zip (map fst sd) addrs, training = True\<rparr>,
          st\<lparr>cells := write_cells (cells st) (zip addrs (map snd sd)),
             grads := write_cells (grads st) (map (\<lambda>a. (a, None)) addrs),
             next_addr := next_addr st + length sd\<rparr>))"

definition get_model ::
  "('m, 'enc, 'h, 'o) env \<Rightarrow> config \<Rightarrow> nat \<Rightarrow> nat \<Rightarrow> store \<Rightarrow> module \<times> store" where
  "get_model env config vocab_src_len vocab_tgt_len st =
     new_module env st
       \<lparr>builder = build_transformer, src_vocab_size = vocab_src_len,
        tgt_vocab_size = vocab_tgt_len, src_seq_len = cfg_seq_len config,
        tgt_seq_len = cfg_seq_len config, d_model = cfg_d_model config\<rparr>"

definition get_model_distillation ::
  "('m, 'enc, 'h, 'o) env \<Rightarrow> config \<Rightarrow> nat \<Rightarrow> nat \<Rightarrow> store \<Rightarrow> module \<times> store" where
  "get_model_distillation env config vocab_src_len vocab_tgt_len st =
     new_module env st
       \<lparr>builder = build_student_transformer, src_vocab_size = vocab_src_len,
        tgt_vocab_size = vocab_tgt_len, src_seq_len = cfg_seq_len config,
        tgt_seq_len = cfg_seq_len config, d_model = cfg_d_model config div 2\<rparr>"

definition parameters :: "module \<Rightarrow> addr list" where
  "parameters m = map snd (named_parameters m)"

text \<open>
  \<open>module.load_state_dict(sd)\<close>, strict: a missing key, an unexpected key or a tensor of
  another shape raises; otherwise the cells of the module receive the tensors.
\<close>

definition load_state_dict :: "module \<Rightarrow> state_dict \<Rightarrow> store \<Rightarrow> error + store" where
  "load_state_dict m sd st =
     (if list_ex (\<lambda>(name, a). case map_of sd name of
                                 None \<Rightarrow> True
                               | Some t \<Rightarrow> length t \<noteq> length (cells st a))
           (named_parameters m)
         \<or> list_ex (\<lambda>(name, t). name \<notin> set (map fst (named_parameters m))) sd
      then Inl RuntimeError
      else Inr (st\<lparr>cells := write_cells (cells st)
                     (map (\<lambda>(name, a). (a, the (map_of sd name))) (named_parameters m))\<rparr>))"

definition Adam :: "('m, 'enc, 'h, 'o) env \<Rightarrow> addr list \<Rightarrow> real \<Rightarrow> real \<Rightarrow> 'o optimizer" where
  "Adam env params lr eps =
     \<lparr>opt_params = params, opt_lr = lr, opt_eps = eps, opt_state = adam_init env\<rparr>"

definition optimizer_state_dict :: "'o optimizer \<Rightarrow> 'o optimizer_state_dict" where
  "optimizer_state_dict opt =
     \<lparr>sd_state = opt_state opt, sd_param_count = length (opt_params opt),
      sd_lr = opt_lr opt, sd_eps = opt_eps opt\<rparr>"

text \<open>
  \<open>optimizer.load_state_dict(sd)\<close> raises when the parameter group of \<open>sd\<close> has another
  size, and otherwise takes the state and the hyper-parameters of the group from \<open>sd\<close>.
\<close>

definition optimizer_load_state_dict ::
  "'o optimizer \<Rightarrow> 'o optimizer_state_dict \<Rightarrow> error + 'o optimizer" where
  "optimizer_load_state_dict opt sd =
     (if sd_param_count sd \<noteq> length (opt_params opt) then Inl ValueError
      else Inr (opt\<lparr>opt_state := sd_state sd, opt_lr := sd_lr sd, opt_eps := sd_eps sd\<rparr>))"

text \<open>
  \<open>loss.backward()\<close>: the gradient of the loss with respect to the parameters of the
  module whose forward pass was recorded is added to the gradients of their cells.
\<close>

definition accumulate ::
  "(addr \<Rightarrow> tensor option) \<Rightarrow> (addr \<times> tensor option) list \<Rightarrow> (addr \<Rightarrow> tensor option)" where
  "accumulate g ws =
     foldl (\<lambda>g (a, d). case d of
                         None \<Rightarrow> g
                       | Some t \<Rightarrow> g(a := Some (case g a of
                                                   None \<Rightarrow> t
                                                 | Some old \<Rightarrow> map (\<lambda>(x, y). x + y) (zip old t))))
       g ws"

definition backward ::
  "('m, 'enc, 'h, 'o) env \<Rightarrow> (state_dict \<Rightarrow> error + real) \<Rightarrow> module \<Rightarrow> store \<Rightarrow> store" where
  "backward env loss_of m st =
     st\<lparr>grads := accumulate (grads st)
                    (zip (parameters m) (autograd env loss_of (state_dict m st)))\<rparr>"

text \<open>
  \<open>optimizer.step()\<close> writes new values into the cells of the parameters the optimizer
  was given, from their values and gradients; \<open>optimizer.zero_grad(set_to_none=True)\<close>
  removes the gradients of these cells.
\<close>

definition optimizer_step ::
  "('m, 'enc, 'h, 'o) env \<Rightarrow> 'o optimizer \<Rightarrow> store \<Rightarrow> 'o optimizer \<times> store" where
  "optimizer_step env opt st =
     (case adam_step env (opt_lr opt) (opt_eps opt) (opt_state opt)
             (map (cells st) (opt_params opt)) (map (grads st) (opt_params opt)) of
        (new_values, state) \<Rightarrow>
          (opt\<lparr>opt_state := state\<rparr>,
           st\<lparr>cells := write_cells (cells st) (zip (opt_params opt) new_values)\<rparr>))"

definition zero_grad :: "'o optimizer \<Rightarrow> store \<Rightarrow> store" where
  "zero_grad opt st =
     st\<lparr>grads := write_cells (grads st) (map (\<lambda>a. (a, None)) (opt_params opt))\<rparr>"

text \<open>
  \<open>torch.load\<close> of the path followed by the look-up of the keys of a checkpoint.
\<close>

definition load_checkpoint :: "'o filesystem \<Rightarrow> string option \<Rightarrow> error + 'o checkpoint" where
  "load_checkpoint fs path =
     (case path of
        None \<Rightarrow> Inl AttributeError
      | Some p \<Rightarrow>
          (case map_of fs p of
             None \<Rightarrow> Inl FileNotFoundError
           | Some (TokenizerFile t) \<Rightarrow> Inl UnpicklingError
           | Some (CheckpointFile c) \<Rightarrow> Inr c
           | Some (StateDictFile sd) \<Rightarrow> Inl KeyError))"

text \<open>\<open>f"{epoch:02d}"\<close>: decimal digits, padded with zeros to width 2, the sign counted.\<close>

definition digit_char :: "nat \<Rightarrow> char" where
  "digit_char d = char_of (48 + d)"

function decimal :: "nat \<Rightarrow> string" where
  "decimal n = (if n < 10 then [digit_char n] else decimal (n div 10) @ [digit_char (n mod 10)])"
  by pat_completeness auto
termination
  by (relation "measure (\<lambda>n. n)") auto

declare decimal.simps [simp del]

definition format_02d :: "int \<Rightarrow> string" where
  "format_02d n =
     (if 0 \<le> n then (let d = decimal (nat n) in replicate (2 - length d) CHR ''0'' @ d)
      else CHR ''-'' # decimal (nat (- n)))"

section \<open>Training\<close>

text \<open>
  \<open>nn.CrossEntropyLoss(ignore_index=..., label_smoothing=...)\<close> as an object; the index is
  \<open>None\<close> when the tokenizer has no \<open>[PAD]\<close>.
\<close>

record cross_entropy_loss =
  ce_ignore_index :: "int option"
  ce_label_smoothing :: real

text \<open>The variables of \<open>train_model\<close> that change while it runs, and what it has written.\<close>

record 'o train_state =
  store :: store
  teacher_model :: module
  student_model :: module
  optimizer :: "'o optimizer"
  loss_fn :: cross_entropy_loss
  global_step :: int
  model_filename :: "string option"
  files :: "'o filesystem"
  effects :: "'o effect list"
  draws :: nat

text \<open>
  \<open>tensor.view(-1, n)\<close> of a tensor with three dimensions: its entries in order, in rows
  of \<open>n\<close>.
\<close>

definition view2 :: "nat \<Rightarrow> real list list list \<Rightarrow> error + real list list" where
  "view2 n t =
     (let flat = concat (concat t)
      in if n = 0 \<or> length flat mod n \<noteq> 0 then Inl RuntimeError else Inr (chunks n flat))"

text \<open>The three calls \<open>encode\<close>, \<open>decode\<close>, \<open>project\<close> on a batch.\<close>

definition forward :: "('m, 'enc, 'h) seq2seq \<Rightarrow> 'm example list \<Rightarrow> real list list list" where
  "forward net batch =
     (let encoder_input = map ex_encoder_input batch;
          decoder_input = map ex_decoder_input batch;
          encoder_mask = map ex_encoder_mask batch;
          decoder_mask = map ex_decoder_mask batch;
          output = encode net encoder_input encoder_mask;
          output = decode net output encoder_mask decoder_input decoder_mask
      in map (map (project net)) output)"

text \<open>
  The loss of a batch as a function of the weights of the student, the logits of the
  teacher being fixed: this is the function that \<open>loss.backward()\<close> differentiates, the
  teacher having been run under \<open>torch.no_grad()\<close>.
\<close>

definition batch_loss ::
  "('m, 'enc, 'h, 'o) env \<Rightarrow> real \<Rightarrow> real \<Rightarrow> tokenizer \<Rightarrow> module \<Rightarrow> real list list list
     \<Rightarrow> 'm example list \<Rightarrow> state_dict \<Rightarrow> error + real" where
  "batch_loss env temp alph tokenizer_tgt student teacher_logits batch weights =
     (let label = map ex_label batch;
          student_logits = forward (network env (hyper student) (training student) weights) batch
      in case view2 (get_vocab_size tokenizer_tgt) student_logits of
           Inl e \<Rightarrow> Inl e
         | Inr student_rows \<Rightarrow>
             (case view2 (get_vocab_size tokenizer_tgt) teacher_logits of
                Inl e \<Rightarrow> Inl e
              | Inr teacher_rows \<Rightarrow>
                  knowledge_distillation_loss student_rows teacher_rows (concat label)
                    temp alph))"

text \<open>The body of the loop over the batches of an epoch.\<close>

definition train_step ::
  "('m, 'enc, 'h, 'o) env \<Rightarrow> real \<Rightarrow> real \<Rightarrow> tokenizer \<Rightarrow> 'o train_state \<Rightarrow> 'm example list
     \<Rightarrow> error + 'o train_state" where
  "train_step env temp alph tokenizer_tgt s batch =
     (let teacher = teacher_model s;
          student = student_model s;
          teacher_logits =
            forward (network env (hyper teacher) (training teacher)
                       (state_dict teacher (store s))) batch;
          loss_of = batch_loss env temp alph tokenizer_tgt student teacher_logits batch
      in case loss_of (state_dict student (store s)) of
           Inl e \<Rightarrow> Inl e
         | Inr loss \<Rightarrow>
             (let written = effects s @ [AddScalar ''train loss'' loss (global_step s)];
                  st = backward env loss_of student (store s)
              in case optimizer_step env (optimizer s) st of
                   (opt, st) \<Rightarrow>
                     Inr (s\<lparr>store := zero_grad opt st, optimizer := opt, effects := written,
                            global_step := global_step s + 1\<rparr>)))"

fun train_batches ::
  "('m, 'enc, 'h, 'o) env \<Rightarrow> real \<Rightarrow> real \<Rightarrow> tokenizer \<Rightarrow> bilingual_dataset
     \<Rightarrow> 'o train_state \<Rightarrow> nat list list \<Rightarrow> error + 'o train_state" where
  "train_batches env temp alph tokenizer_tgt d s [] = Inr s"
| "train_batches env temp alph tokenizer_tgt d s (idxs # rest) =
     (case fetch env d idxs of
        Inl e \<Rightarrow> Inl e
      | Inr batch \<Rightarrow>
          (case train_step env temp alph tokenizer_tgt s batch of
             Inl e \<Rightarrow> Inl e
           | Inr s \<Rightarrow> train_batches env temp alph tokenizer_tgt d s rest))"

text \<open>One pass through the body of the loop over the epochs.\<close>

definition run_epoch ::
  "('m, 'enc, 'h, 'o) env \<Rightarrow> config \<Rightarrow> real \<Rightarrow> real \<Rightarrow> dataloader \<Rightarrow> dataloader \<Rightarrow> tokenizer
     \<Rightarrow> tokenizer \<Rightarrow> 'o train_state \<Rightarrow> int \<Rightarrow> (error + 'o train_state) option" where
  "run_epoch env config temp alph train_dataloader val_dataloader tokenizer_src tokenizer_tgt
     s ep =
     (let s = s\<lparr>student_model := (student_model s)\<lparr>training := True\<rparr>\<rparr>;
          s = s\<lparr>teacher_model := (teacher_model s)\<lparr>training := False\<rparr>\<rparr>;
          batches = batch_indices env (draws s) train_dataloader;
          s = s\<lparr>draws := draws s + 1\<rparr>
      in case train_batches env temp alph tokenizer_tgt (dl_dataset train_dataloader) s
                batches of
           Inl e \<Rightarrow> Some (Inl e)
         | Inr s \<Rightarrow>
             (case run_validation env (student_model s) (store s) val_dataloader (draws s)
                     tokenizer_src tokenizer_tgt (cfg_seq_len config) (global_step s) True 2 of
                None \<Rightarrow> None
              | Some (Inl e) \<Rightarrow> Some (Inl e)
              | Some (Inr (student, scalars)) \<Rightarrow>
                  (let s = s\<lparr>student_model := student, effects := effects s @ scalars,
                             draws := draws s + 1\<rparr>;
                       filename = get_weights_file_path env config (format_02d ep);
                       saved = CheckpointFile
                         \<lparr>ck_epoch = ep,
                          ck_model_state_dict = state_dict (student_model s) (store s),
                          ck_optimizer_state_dict = optimizer_state_dict (optimizer s),
                          ck_global_step = global_step s\<rparr>
                   in Some (Inr (s\<lparr>model_filename := Some filename,
                                   files := write_file (files s) filename saved,
                                   effects := effects s @ [TorchSave filename saved]\<rparr>)))))"

fun epochs_loop ::
  "('m, 'enc, 'h, 'o) env \<Rightarrow> config \<Rightarrow> real \<Rightarrow> real \<Rightarrow> dataloader \<Rightarrow> dataloader \<Rightarrow> tokenizer
     \<Rightarrow> tokenizer \<Rightarrow> 'o train_state \<Rightarrow> int list \<Rightarrow> (error + 'o train_state) option" where
  "epochs_loop env config temp alph train_dataloader val_dataloader tokenizer_src tokenizer_tgt
     s [] = Some (Inr s)"
| "epochs_loop env config temp alph train_dataloader val_dataloader tokenizer_src tokenizer_tgt
     s (ep # rest) =
     (case run_epoch env config temp alph train_dataloader val_dataloader tokenizer_src
             tokenizer_tgt s ep of
        None \<Rightarrow> None
      | Some (Inl e) \<Rightarrow> Some (Inl e)
      | Some (Inr s) \<Rightarrow>
          epochs_loop env config temp alph train_dataloader val_dataloader tokenizer_src
            tokenizer_tgt s rest)"

text \<open>Truth value of a string or \<open>None\<close> in a condition.\<close>

definition truthy :: "string option \<Rightarrow> bool" where
  "truthy x = (case x of None \<Rightarrow> False | Some v \<Rightarrow> v \<noteq> [])"

text \<open>
  The part of \<open>train_model\<close> before the loop over the epochs: data, the two models, the
  optimizer over the parameters of the student, the optional preloading, the loss object.
  It returns the state and the first epoch. The choice of the device, the creation of the
  folder and printing are left out.
\<close>

definition train_setup ::
  "('m, 'enc, 'h, 'o) env \<Rightarrow> config \<Rightarrow> 'o filesystem
     \<Rightarrow> error + 'o train_state \<times> int \<times> dataloader \<times> dataloader \<times> tokenizer \<times> tokenizer" where
  "train_setup env config fs =
     (case get_ds env config fs of
        Inl e \<Rightarrow> Inl e
      | Inr (train_dataloader, val_dataloader, tokenizer_src, tokenizer_tgt, fs) \<Rightarrow>
     (case get_model env config (get_vocab_size tokenizer_src) (get_vocab_size tokenizer_tgt)
             \<lparr>cells = (\<lambda>a. []), grads = (\<lambda>a. None), next_addr = 0\<rparr> of
        (teacher, st) \<Rightarrow>
     (case get_model_distillation env config (get_vocab_size tokenizer_src)
             (get_vocab_size tokenizer_tgt) st of
        (student, st) \<Rightarrow>
     (let opt = Adam env (parameters student) (cfg_lr config) (1 / 10 ^ 9);
          preload = cfg_preload config;
          filename =
            (if preload = Some ''latest'' then latest_weights_file_path env config (map fst fs)
             else if truthy preload
                  then Some (get_weights_file_path env config (the preload))
                  else None);
          lf = \<lparr>ce_ignore_index = token_to_id tokenizer_src ''[PAD]'',
                ce_label_smoothing = 1 / 10\<rparr>
      in if truthy filename
         then
           (case load_checkpoint fs (latest_weights_file_path env config (map fst fs)) of
              Inl e \<Rightarrow> Inl e
            | Inr state \<Rightarrow>
           (case load_state_dict teacher (ck_model_state_dict state) st of
              Inl e \<Rightarrow> Inl e
            | Inr st \<Rightarrow>
           (case optimizer_load_state_dict opt (ck_optimizer_state_dict state) of
              Inl e \<Rightarrow> Inl e
            | Inr opt \<Rightarrow>
                Inr (\<lparr>store = st, teacher_model = teacher, student_model = student,
                      optimizer = opt, loss_fn = lf, global_step = ck_global_step state,
                      model_filename = filename, files = fs, effects = [], draws = 0\<rparr>,
                     ck_epoch state + 1, train_dataloader, val_dataloader,
                     tokenizer_src, tokenizer_tgt))))
         else
           Inr (\<lparr>store = st, teacher_model = teacher, student_model = student,
                 optimizer = opt, loss_fn = lf, global_step = 0,
                 model_filename = filename, files = fs, effects = [], draws = 0\<rparr>,
                0, train_dataloader, val_dataloader, tokenizer_src, tokenizer_tgt)))))"

text \<open>
  The part after the loop: the size of the last file saved is read, the student is
  quantized dynamically and the state dictionary of the quantized copy is saved.
\<close>

definition quantize_and_save ::
  "('m, 'enc, 'h, 'o) env \<Rightarrow> config \<Rightarrow> 'o train_state \<Rightarrow> error + 'o train_state" where
  "quantize_and_save env config s =
     (case model_filename s of
        None \<Rightarrow> Inl TypeError
      | Some filename \<Rightarrow>
          (if \<not> exists_path (files s) filename then Inl FileNotFoundError
           else
             (let quantized = quantize_dynamic env [Linear] qint8
                                (state_dict (student_model s) (store s));
                  s = s\<lparr>effects := effects s @ [QuantizeDynamic [Linear] qint8]\<rparr>;
                  quantized_model_filename =
                    get_weights_file_path env config ''quantized_model''
              in Inr (s\<lparr>files := write_file (files s) quantized_model_filename
                                   (StateDictFile quantized),
                        effects := effects s @ [TorchSave quantized_model_filename
                                                  (StateDictFile quantized)]\<rparr>))))"

definition train_model ::
  "('m, 'enc, 'h, 'o) env \<Rightarrow> config \<Rightarrow> 'o filesystem \<Rightarrow> (error + 'o train_state) option" where
  "train_model env config fs =
     (case train_setup env config fs of
        Inl e \<Rightarrow> Some (Inl e)
      | Inr (s, initial_epoch, train_dataloader, val_dataloader, tokenizer_src,
             tokenizer_tgt) \<Rightarrow>
          (let temp = (case cfg_temperature config of None \<Rightarrow> 2 | Some t \<Rightarrow> t);
               alph = (case cfg_alpha config of None \<Rightarrow> 7 / 10 | Some a \<Rightarrow> a)
           in case epochs_loop env config temp alph train_dataloader val_dataloader
                     tokenizer_src tokenizer_tgt s [initial_epoch .. cfg_num_epochs config - 1] of
                None \<Rightarrow> None
              | Some (Inl e) \<Rightarrow> Some (Inl e)
              | Some (Inr s) \<Rightarrow> Some (quantize_and_save env config s)))"

section \<open>Predicates of the properties\<close>

text \<open>
  The labels fit the logits: one label per row, each a class index of its row. These are
  the inputs on which the loss returns a number.
\<close>

definition labels_in_range :: "real list list \<Rightarrow> int list \<Rightarrow> bool" where
  "labels_in_range logits labels =
     (length labels = length logits
      \<and> list_all (\<lambda>(row, l). 0 \<le> l \<and> l < int (length row)) (zip logits labels))"

text \<open>
  \<open>k\<close> is the index of the first maximal entry of the row.
\<close>

definition is_first_argmax :: "real list \<Rightarrow> nat \<Rightarrow> bool" where
  "is_first_argmax row k =
     (k < length row \<and> (\<forall>j < length row. row ! j \<le> row ! k) \<and> (\<forall>j < k. row ! j < row ! k))"

text \<open>
  \<open>w\<close> is the token that one pass of the loop of \<open>greedy_decode\<close> emits after \<open>dec\<close>: the
  first argmax of the projection of the last decoder position.
\<close>

definition emits_argmax ::
  "('m, 'enc, 'h, 'o) env \<Rightarrow> ('m, 'enc, 'h) seq2seq \<Rightarrow> 'enc \<Rightarrow> 'm list \<Rightarrow> int list \<Rightarrow> int
     \<Rightarrow> bool" where
  "emits_argmax env model encoder_output source_mask dec w =
     (case decode model encoder_output source_mask [dec] [causal_mask env (length dec)] of
        [row] \<Rightarrow> row \<noteq> [] \<and> 0 \<le> w \<and> is_first_argmax (project model (last row)) (nat w)
      | _ \<Rightarrow> False)"

text \<open>
  What a run of the loop that started with \<open>n\<close> tokens has produced: at most \<open>max_len\<close>
  tokens, every token from position \<open>n\<close> on emitted as the argmax after its predecessors,
  no end-of-sequence token before the last one, and the last one an end-of-sequence token
  when the run stopped short of \<open>max_len\<close>.
\<close>

definition decoded_from ::
  "('m, 'enc, 'h, 'o) env \<Rightarrow> ('m, 'enc, 'h) seq2seq \<Rightarrow> 'enc \<Rightarrow> 'm list \<Rightarrow> int option \<Rightarrow> int
     \<Rightarrow> nat \<Rightarrow> int list \<Rightarrow> bool" where
  "decoded_from env model enc sm eos max_len n ys =
     (n \<le> length ys \<and> int (length ys) \<le> max_len
      \<and> (\<forall>i < length ys. n \<le> i \<longrightarrow> emits_argmax env model enc sm (take i ys) (ys ! i))
      \<and> (\<forall>i < length ys. n \<le> i \<and> Suc i < length ys \<longrightarrow> Some (ys ! i) \<noteq> eos)
      \<and> (int (length ys) < max_len \<longrightarrow> n < length ys \<and> Some (last ys) = eos))"

subsection \<open>A small environment on which the definitions can be evaluated\<close>

definition toy_tokenizer :: tokenizer where
  "toy_tokenizer =
     \<lparr>unk_token = ''[UNK]'', pre_tokenizer = Whitespace,
      special_tokens = [''[UNK]'', ''[PAD]'', ''[SOS]'', ''[EOS]''],
      vocab = [''[UNK]'', ''[PAD]'', ''[SOS]'', ''[EOS]'', ''a'']\<rparr>"

definition toy_net :: "(unit, unit, int) seq2seq" where
  "toy_net =
     \<lparr>encode = (\<lambda>src m. ()),
      decode = (\<lambda>enc m dec dm. dec),
      project = (\<lambda>h. if h = 2 then [0, 0, 0, 0, 1] else [0, 0, 0, 1, 0])\<rparr>"

definition toy_example :: "unit example" where
  "toy_example =
     \<lparr>ex_encoder_input = [2, 4, 3], ex_decoder_input = [2, 4], ex_encoder_mask = (),
      ex_decoder_mask = (), ex_label = [4, 3], ex_src_text = ''a'', ex_tgt_text = ''a''\<rparr>"

definition toy_env :: "(unit, unit, int, unit) env" where
  "toy_env =
     \<lparr>causal_mask = (\<lambda>n. ()),
      network = (\<lambda>h tr sd. toy_net),
      init_state_dict = (\<lambda>h. [(''w'', [0])]),
      autograd = (\<lambda>f sd. [Some [1]]),
      adam_init = (),
      adam_step = (\<lambda>lr eps st ps gs. (ps, ())),
      quantize_dynamic = (\<lambda>ls dt sd. sd),
      get_weights_file_path = (\<lambda>c e. ''w'' @ e),
      latest_weights_file_path = (\<lambda>c ps. if ''w00'' \<in> set ps then Some ''w00'' else None),
      load_dataset = (\<lambda>a b. [[(''en'', ''a''), (''it'', ''a'')]]),
      random_split = (\<lambda>xs a b. (take a xs, drop a xs)),
      getitem = (\<lambda>d i. Inr toy_example),
      sampler = (\<lambda>k n. [0..<n]),
      str_format = (\<lambda>f l. f @ l),
      word_level_train = (\<lambda>sp mf ss. sp @ [''a'']),
      tokenizer_decode = (\<lambda>t ids. ''a''),
      char_error_rate = (\<lambda>p e. 0),
      word_error_rate = (\<lambda>p e. 0),
      bleu_score = (\<lambda>p e. 1)\<rparr>"

definition toy_config :: config where
  "toy_config =
     \<lparr>cfg_tokenizer_file = ''tok_'', cfg_datasource = ''books'', cfg_lang_src = ''en'',
      cfg_lang_tgt = ''it'', cfg_seq_len = 5, cfg_d_model = 4, cfg_batch_size = 1,
      cfg_num_epochs = 1, cfg_lr = 1 / 10000, cfg_preload = None, cfg_model_folder = ''weights'',
      cfg_experiment_name = ''runs'', cfg_temperature = None, cfg_alpha = None\<rparr>"

definition toy_hyper :: hyper where
  "toy_hyper =
     \<lparr>builder = build_student_transformer, src_vocab_size = 5, tgt_vocab_size = 5,
      src_seq_len = 5, tgt_seq_len = 5, d_model = 2\<rparr>"

definition toy_module :: module where
  "toy_module = \<lparr>hyper = toy_hyper, named_parameters = [(''w'', 0)], training = True\<rparr>"

definition toy_store :: store where
  "toy_store = \<lparr>cells = (\<lambda>a. [0]), grads = (\<lambda>a. None), next_addr = 1\<rparr>"

(*DEFS_END*)

section \<open>The distillation loss is the weighted sum of the specification\<close>

lemma sum_exp_pos: "xs \<noteq> [] \<Longrightarrow> 0 < sum_list (map exp (xs :: real list))"
proof (induction xs)
  case Nil
  then show ?case by simp
next
  case (Cons x xs)
  have "0 \<le> sum_list (map exp xs)" by (rule sum_list_nonneg) auto
  moreover have "0 < exp x" by simp
  ultimately have "0 < exp x + sum_list (map exp xs)" by linarith
  then show ?case by simp
qed

lemma softmax_pos: "k < length row \<Longrightarrow> 0 < softmax row ! k"
proof -
  assume k: "k < length row"
  then have "row \<noteq> []" by auto
  then have "0 < sum_list (map exp row)" by (rule sum_exp_pos)
  with k show ?thesis by (simp add: softmax_def)
qed

lemma ln_softmax: "k < length row \<Longrightarrow> ln (softmax row ! k) = log_softmax row ! k"
proof -
  assume k: "k < length row"
  then have "row \<noteq> []" by auto
  then have z: "0 < sum_list (map exp row)" by (rule sum_exp_pos)
  have "ln (exp (row ! k) / sum_list (map exp row)) = row ! k - ln (sum_list (map exp row))"
    using z by (simp add: ln_div)
  with k show ?thesis by (simp add: softmax_def log_softmax_def)
qed

lemma sum_list_zip_nth:
  "length xs = length ys \<Longrightarrow>
     sum_list (map f (zip xs ys)) = (\<Sum>i < length xs. (f (xs ! i, ys ! i) :: real))"
  by (simp add: sum_list_sum_nth atLeast0LessThan)

lemma kl_row:
  assumes "length s = length t"
  shows "sum_list (map (\<lambda>(x, p). kl_pointwise x p) (zip (log_softmax s) (softmax t)))
       = kl_divergence (softmax t) (softmax s)"
proof -
  have ls: "length (log_softmax s) = length s" by (simp add: log_softmax_def)
  have lt: "length (softmax t) = length t" by (simp add: softmax_def)
  have lss: "length (softmax s) = length s" by (simp add: softmax_def)
  have "sum_list (map (\<lambda>(x, p). kl_pointwise x p) (zip (log_softmax s) (softmax t)))
      = (\<Sum>i < length s. kl_pointwise (log_softmax s ! i) (softmax t ! i))"
    using sum_list_zip_nth[of "log_softmax s" "softmax t" "\<lambda>(x, p). kl_pointwise x p"]
      ls lt assms by simp
  also have "\<dots> = (\<Sum>i < length s. softmax t ! i * ln (softmax t ! i / softmax s ! i))"
  proof (rule sum.cong)
    fix i assume "i \<in> {..<length s}"
    then have i: "i < length s" "i < length t" using assms by simp_all
    have pt: "0 < softmax t ! i" using i by (simp add: softmax_pos)
    have ps: "0 < softmax s ! i" using i by (simp add: softmax_pos)
    have "ln (softmax t ! i / softmax s ! i) = ln (softmax t ! i) - log_softmax s ! i"
      using pt ps i by (simp add: ln_div ln_softmax)
    then have "softmax t ! i * ln (softmax t ! i / softmax s ! i)
        = softmax t ! i * ln (softmax t ! i) - softmax t ! i * log_softmax s ! i"
      by (simp only: right_diff_distrib)
    then show "kl_pointwise (log_softmax s ! i) (softmax t ! i)
        = softmax t ! i * ln (softmax t ! i / softmax s ! i)"
      using pt by (simp add: kl_pointwise_def xlogy_def)
  qed simp
  also have "\<dots> = kl_divergence (softmax t) (softmax s)"
    using sum_list_zip_nth[of "softmax t" "softmax s" "\<lambda>(p, q). p * ln (p / q)"]
      lt lss assms by (simp add: kl_divergence_def)
  finally show ?thesis .
qed

lemma KLDivLoss_spec:
  assumes "student_logits \<noteq> []"
    and "map length teacher_logits = map length student_logits"
  shows "KLDivLoss_batchmean (map log_softmax (tensor_div student_logits c))
           (map softmax (tensor_div teacher_logits c))
       = Inr (spec_distillation student_logits teacher_logits c)"
proof -
  let ?S = "tensor_div student_logits c" and ?T = "tensor_div teacher_logits c"
  have len: "length teacher_logits = length student_logits"
    using assms(2) by (metis length_map)
  have shapes: "map length (map log_softmax ?S) = map length (map softmax ?T)"
    using assms(2) by (simp add: tensor_div_def log_softmax_def softmax_def comp_def)
  have rows: "length (student_logits ! i) = length (teacher_logits ! i)"
    if "i < length student_logits" for i
    using that len assms(2) by (metis nth_map)
  have "sum_list (map (\<lambda>(r, tr). sum_list (map (\<lambda>(x, t). kl_pointwise x t) (zip r tr)))
                      (zip (map log_softmax ?S) (map softmax ?T)))
      = (\<Sum>i < length student_logits.
           sum_list (map (\<lambda>(x, t). kl_pointwise x t)
             (zip (log_softmax (?S ! i)) (softmax (?T ! i)))))"
    using sum_list_zip_nth[of "map log_softmax ?S" "map softmax ?T"
        "\<lambda>(r, tr). sum_list (map (\<lambda>(x, t). kl_pointwise x t) (zip r tr))"] len
    by (simp add: tensor_div_def)
  also have "\<dots> = (\<Sum>i < length student_logits.
      kl_divergence (softmax (map (\<lambda>x. x / c) (teacher_logits ! i)))
                    (softmax (map (\<lambda>x. x / c) (student_logits ! i))))"
  proof (rule sum.cong)
    fix i assume "i \<in> {..<length student_logits}"
    then have i: "i < length student_logits" by simp
    have "length (?S ! i) = length (?T ! i)"
      using i len rows[OF i] by (simp add: tensor_div_def)
    from kl_row[OF this] show "sum_list (map (\<lambda>(x, t). kl_pointwise x t)
             (zip (log_softmax (?S ! i)) (softmax (?T ! i))))
        = kl_divergence (softmax (map (\<lambda>x. x / c) (teacher_logits ! i)))
                    (softmax (map (\<lambda>x. x / c) (student_logits ! i)))"
      using i len by (simp add: tensor_div_def)
  qed simp
  also have "\<dots> = sum_list (map (\<lambda>(s, t). kl_divergence (softmax (map (\<lambda>x. x / c) t))
                                            (softmax (map (\<lambda>x. x / c) s)))
                   (zip student_logits teacher_logits))"
    using sum_list_zip_nth[of student_logits teacher_logits
        "\<lambda>(s, t). kl_divergence (softmax (map (\<lambda>x. x / c) t)) (softmax (map (\<lambda>x. x / c) s))"]
      len by simp
  finally show ?thesis
    using shapes assms(1)
    by (simp add: KLDivLoss_batchmean_def spec_distillation_def tensor_div_def)
qed

lemma CrossEntropyLoss_spec:
  assumes "logits \<noteq> []" and "labels_in_range logits labels" and "ig < 0"
  shows "CrossEntropyLoss ig logits labels = Inr (spec_cross_entropy logits labels)"
proof -
  let ?z = "zip logits labels"
  have len: "length labels = length logits" using assms(2) by (simp add: labels_in_range_def)
  have ok: "0 \<le> l \<and> l < int (length row)" if "(row, l) \<in> set ?z" for row l
    using assms(2) that by (auto simp: labels_in_range_def list_all_iff)
  have kept: "filter (\<lambda>(row, l). l \<noteq> ig) ?z = ?z"
    using ok assms(3) by (fastforce simp: filter_id_conv)
  have noex: "\<not> list_ex (\<lambda>(row, l). l < 0 \<or> int (length row) \<le> l) ?z"
    using ok by (fastforce simp: list_ex_iff)
  have ne: "?z \<noteq> []" using assms(1) len by (cases logits; cases labels) auto
  have meq: "map (\<lambda>(row, l). - (log_softmax row ! nat l)) ?z
      = map (\<lambda>(row, l). - ln (softmax row ! nat l)) ?z"
  proof (rule map_cong[OF refl])
    fix p assume p: "p \<in> set ?z"
    obtain row l where pl: "p = (row, l)" by (cases p)
    with p ok have "nat l < length row" by fastforce
    then show "(case p of (row, l) \<Rightarrow> - (log_softmax row ! nat l))
        = (case p of (row, l) \<Rightarrow> - ln (softmax row ! nat l))"
      using pl by (simp add: ln_softmax)
  qed
  have "CrossEntropyLoss ig logits labels
      = Inr (sum_list (map (\<lambda>(row, l). - (log_softmax row ! nat l)) ?z) / real (length ?z))"
    using kept noex ne len by (simp add: CrossEntropyLoss_def Let_def)
  also have "\<dots> = Inr (spec_cross_entropy logits labels)"
    unfolding meq spec_cross_entropy_def using len by simp
  finally show ?thesis .
qed

text \<open>
  C1. For logits of equal shape with at least one row, labels that are class indices and
  a temperature other than 0, \<open>knowledge_distillation_loss\<close> returns \<open>alpha\<close> times the
  cross-entropy of the student logits against the labels plus \<open>1 - alpha\<close> times the
  Kullback-Leibler divergence between the softened teacher and student distributions
  (computed from the log-softmax of the student logits over the temperature and the
  softmax of the teacher logits over the temperature), the latter scaled by the square of
  the temperature.
\<close>

theorem knowledge_distillation_loss_formula:
  assumes "temperature \<noteq> 0"
    and "student_logits \<noteq> []"
    and "map length teacher_logits = map length student_logits"
    and "labels_in_range student_logits labels"
  shows "knowledge_distillation_loss student_logits teacher_logits labels temperature alpha
       = Inr (spec_loss student_logits teacher_logits labels temperature alpha)"
  using assms KLDivLoss_spec[OF assms(2,3), of temperature]
    CrossEntropyLoss_spec[OF assms(2,4), of default_ignore_index]
  by (simp add: knowledge_distillation_loss_def spec_loss_def default_ignore_index_def
      mult.commute)

theorem knowledge_distillation_loss_formula_witness:
  "(2::real) \<noteq> 0 \<and> [[0, 0 :: real]] \<noteq> []
   \<and> map length [[0, 0 :: real]] = map length [[0, 0 :: real]]
   \<and> labels_in_range [[0, 0]] [0]
   \<and> knowledge_distillation_loss [[0, 0]] [[0, 0]] [0] 2 (7 / 10)
       = Inr (spec_loss [[0, 0]] [[0, 0]] [0] 2 (7 / 10))"
proof -
  have a: "(2::real) \<noteq> 0" by simp
  have b: "[[0, 0 :: real]] \<noteq> []" by simp
  have c: "map length [[0, 0 :: real]] = map length [[0, 0 :: real]]" by simp
  have d: "labels_in_range [[0, 0]] [0]" by (simp add: labels_in_range_def)
  from knowledge_distillation_loss_formula[OF a b c d, of "7 / 10"] a b c d
  show ?thesis by blast
qed

section \<open>Greedy decoding terminates and emits argmax tokens\<close>

lemma argmax_from_spec:
  assumes "argmax_from best bi i xs = (v, k)"
    and "bi < i" and "length pre = i" and "pre ! bi = best"
    and "\<forall>j < i. pre ! j \<le> best" and "\<forall>j < bi. pre ! j < best"
  shows "v = (pre @ xs) ! k \<and> is_first_argmax (pre @ xs) k"
  using assms
proof (induction best bi i xs arbitrary: pre rule: argmax_from.induct)
  case (1 best bi i)
  then show ?case by (auto simp: is_first_argmax_def)
next
  case (2 best bi i x xs)
  show ?case
  proof (cases "best < x")
    case True
    have "v = ((pre @ [x]) @ xs) ! k \<and> is_first_argmax ((pre @ [x]) @ xs) k"
    proof (rule "2.IH"(1)[OF True])
      show "argmax_from x i (Suc i) xs = (v, k)" using "2.prems"(1) True by simp
      show "i < Suc i" by simp
      show "length (pre @ [x]) = Suc i" using "2.prems" by simp
      show "(pre @ [x]) ! i = x" using "2.prems" by (simp add: nth_append)
      show "\<forall>j<Suc i. (pre @ [x]) ! j \<le> x"
        using "2.prems" True by (auto simp: nth_append less_Suc_eq)
      show "\<forall>j<i. (pre @ [x]) ! j < x"
        using "2.prems" True by (auto simp: nth_append)
    qed
    then show ?thesis by simp
  next
    case False
    have "v = ((pre @ [x]) @ xs) ! k \<and> is_first_argmax ((pre @ [x]) @ xs) k"
    proof (rule "2.IH"(2)[OF False])
      show "argmax_from best bi (Suc i) xs = (v, k)" using "2.prems"(1) False by simp
      show "bi < Suc i" using "2.prems" by simp
      show "length (pre @ [x]) = Suc i" using "2.prems" by simp
      show "(pre @ [x]) ! bi = best" using "2.prems" by (simp add: nth_append)
      show "\<forall>j<Suc i. (pre @ [x]) ! j \<le> best"
        using "2.prems" False by (auto simp: nth_append less_Suc_eq)
      show "\<forall>j<bi. (pre @ [x]) ! j < best"
        using "2.prems" by (auto simp: nth_append)
    qed
    then show ?thesis by simp
  qed
qed

lemma max_row_spec:
  assumes "row \<noteq> []"
  shows "is_first_argmax row (snd (max_row row))"
proof (cases row)
  case Nil
  with assms show ?thesis by simp
next
  case (Cons x xs)
  obtain v k where vk: "argmax_from x 0 1 xs = (v, k)" by (cases "argmax_from x 0 1 xs")
  then have "v = ([x] @ xs) ! k \<and> is_first_argmax ([x] @ xs) k"
    by (rule argmax_from_spec) auto
  with Cons vk show ?thesis by simp
qed

lemma next_word_emits:
  assumes "next_word env model enc sm dec = Inr w"
  shows "emits_argmax env model enc sm dec w"
proof -
  let ?out = "decode model enc sm [dec] [causal_mask env (length dec)]"
  from assms obtain hs where hs: "select_last ?out = Inr hs"
    by (auto simp: next_word_def Let_def split: sum.splits)
  then have rows: "\<not> list_ex (\<lambda>row. row = []) ?out" and hsm: "hs = map last ?out"
    by (auto simp: select_last_def split: if_splits)
  from assms hs obtain mx where mx: "torch_max_dim1 (map (project model) hs) = Inr mx"
    by (auto simp: next_word_def Let_def split: sum.splits)
  then have pr: "\<not> list_ex (\<lambda>row. row = []) (map (project model) hs)"
    and mxm: "mx = map max_row (map (project model) hs)"
    by (auto simp: torch_max_dim1_def split: if_splits)
  from assms hs mx obtain k where k: "tensor_item (map snd mx) = Inr k" and w: "w = int k"
    by (auto simp: next_word_def Let_def split: sum.splits)
  from k have one: "map snd mx = [k]"
    by (auto simp: tensor_item_def split: list.splits)
  then have "length ?out = 1" using mxm hsm by (metis length_map length_Cons list.size(3) One_nat_def)
  then obtain row where row: "?out = [row]"
    by (cases ?out) auto
  with rows have ne: "row \<noteq> []" by simp
  from pr hsm row have pne: "project model (last row) \<noteq> []" by simp
  from one mxm hsm row have "k = snd (max_row (project model (last row)))" by simp
  with max_row_spec[OF pne] have "is_first_argmax (project model (last row)) k" by simp
  with row ne w show ?thesis by (simp add: emits_argmax_def)
qed

lemma next_word_well_shaped:
  assumes "\<forall>e m d dm. d \<noteq> [] \<longrightarrow> (\<exists>row. decode model e m [d] dm = [row] \<and> row \<noteq> [])"
    and "\<forall>h. project model h \<noteq> []" and "dec \<noteq> []"
  shows "\<exists>w. next_word env model enc sm dec = Inr w"
proof -
  obtain row where row: "decode model enc sm [dec] [causal_mask env (length dec)] = [row]"
    and ne: "row \<noteq> []" using assms(1,3) by blast
  have pne: "project model (last row) \<noteq> []" using assms(2) by simp
  show ?thesis using row ne pne
    by (simp add: next_word_def Let_def select_last_def torch_max_dim1_def tensor_item_def)
qed

lemma greedy_loop_returns:
  "int (length dec) \<le> max_len \<Longrightarrow> \<exists>r. greedy_loop env model enc sm eos max_len dec = Some r"
proof (induction "nat (max_len - int (length dec))" arbitrary: dec)
  case 0
  then have "int (length dec) = max_len" by simp
  then show ?case by (subst greedy_loop.simps) simp
next
  case (Suc n)
  then have ne: "int (length dec) \<noteq> max_len" by simp
  show ?case
  proof (cases "next_word env model enc sm dec")
    case (Inl e)
    with ne show ?thesis by (subst greedy_loop.simps) simp
  next
    case (Inr w)
    have "\<exists>r. greedy_loop env model enc sm eos max_len (dec @ [w]) = Some r"
      by (rule Suc.hyps(1)) (use Suc.hyps(2) Suc.prems in auto)
    with ne Inr show ?thesis by (subst greedy_loop.simps) simp
  qed
qed

lemma greedy_loop_no_error:
  assumes "\<forall>e m d dm. d \<noteq> [] \<longrightarrow> (\<exists>row. decode model e m [d] dm = [row] \<and> row \<noteq> [])"
    and "\<forall>h. project model h \<noteq> []"
  shows "dec \<noteq> [] \<Longrightarrow> int (length dec) \<le> max_len
    \<Longrightarrow> greedy_loop env model enc sm eos max_len dec \<noteq> Some (Inl e)"
proof (induction "nat (max_len - int (length dec))" arbitrary: dec)
  case 0
  then have "int (length dec) = max_len" by simp
  then show ?case by (subst greedy_loop.simps) simp
next
  case (Suc n)
  then have ne: "int (length dec) \<noteq> max_len" by simp
  obtain w where w: "next_word env model enc sm dec = Inr w"
    using next_word_well_shaped[OF assms Suc.prems(1), of env enc sm] by blast
  have "greedy_loop env model enc sm eos max_len (dec @ [w]) \<noteq> Some (Inl e)"
    by (rule Suc.hyps(1)) (use Suc.hyps(2) Suc.prems in auto)
  with ne w show ?case by (subst greedy_loop.simps) simp
qed

lemma greedy_loop_result:
  "int (length dec) \<le> max_len \<Longrightarrow> greedy_loop env model enc sm eos max_len dec = Some (Inr ys)
     \<Longrightarrow> take (length dec) ys = dec \<and> decoded_from env model enc sm eos max_len (length dec) ys"
proof (induction "nat (max_len - int (length dec))" arbitrary: dec)
  case 0
  then have "int (length dec) = max_len" by simp
  with 0(3) have "ys = dec" by (subst (asm) greedy_loop.simps) simp
  with \<open>int (length dec) = max_len\<close> show ?case by (auto simp: decoded_from_def)
next
  case (Suc n)
  then have ne: "int (length dec) \<noteq> max_len" by simp
  show ?case
  proof (cases "next_word env model enc sm dec")
    case (Inl e)
    with ne Suc.prems(2) show ?thesis by (subst (asm) greedy_loop.simps) simp
  next
    case (Inr w)
    have em: "emits_argmax env model enc sm dec w" using Inr by (rule next_word_emits)
    show ?thesis
    proof (cases "Some w = eos")
      case True
      with ne Inr Suc.prems(2) have ys: "ys = dec @ [w]"
        by (subst (asm) greedy_loop.simps) simp
      show ?thesis using ys em True Suc.prems(1) ne
        by (auto simp: decoded_from_def nth_append less_Suc_eq)
    next
      case False
      with ne Inr Suc.prems(2)
      have run: "greedy_loop env model enc sm eos max_len (dec @ [w]) = Some (Inr ys)"
        by (subst (asm) greedy_loop.simps) simp
      have le: "int (length (dec @ [w])) \<le> max_len" using Suc.prems(1) ne by simp
      have n: "n = nat (max_len - int (length (dec @ [w])))" using Suc.hyps(2) by simp
      from Suc.hyps(1)[OF n le run]
      have tk: "take (Suc (length dec)) ys = dec @ [w]"
        and df: "decoded_from env model enc sm eos max_len (Suc (length dec)) ys" by simp_all
      have len: "Suc (length dec) \<le> length ys" using df by (simp add: decoded_from_def)
      have tk0: "take (length dec) ys = dec"
      proof -
        have "take (length dec) (take (Suc (length dec)) ys) = take (length dec) (dec @ [w])"
          using tk by simp
        then show ?thesis by (simp add: min_def)
      qed
      have at: "ys ! length dec = w"
      proof -
        have "ys ! length dec = take (Suc (length dec)) ys ! length dec" by simp
        also have "\<dots> = w" by (simp only: tk) simp
        finally show ?thesis .
      qed
      have "decoded_from env model enc sm eos max_len (length dec) ys"
        unfolding decoded_from_def
      proof (intro conjI allI impI)
        show "length dec \<le> length ys" using len by simp
        show "int (length ys) \<le> max_len" using df by (simp add: decoded_from_def)
      next
        fix i assume "i < length ys" and i: "length dec \<le> i"
        show "emits_argmax env model enc sm (take i ys) (ys ! i)"
        proof (cases "i = length dec")
          case True
          then show ?thesis using em tk0 at by simp
        next
          case False
          with i \<open>i < length ys\<close> have "Suc (length dec) \<le> i" "i < length ys" by simp_all
          with df show ?thesis by (simp add: decoded_from_def)
        qed
      next
        fix i assume "i < length ys" and i: "length dec \<le> i \<and> Suc i < length ys"
        show "Some (ys ! i) \<noteq> eos"
        proof (cases "i = length dec")
          case True
          then show ?thesis using at \<open>Some w \<noteq> eos\<close> by simp
        next
          case False
          with i have "Suc (length dec) \<le> i \<and> Suc i < length ys" by simp
          with df \<open>i < length ys\<close> show ?thesis by (simp add: decoded_from_def)
        qed
      next
        assume "int (length ys) < max_len"
        with df show "length dec < length ys" by (simp add: decoded_from_def)
      next
        assume "int (length ys) < max_len"
        with df show "Some (last ys) = eos" by (simp add: decoded_from_def)
      qed
      with tk0 show ?thesis by simp
    qed
  qed
qed

text \<open>
  C3. For every source and every \<open>max_len\<close> of at least 1, \<open>greedy_decode\<close> terminates.
  When the target tokenizer knows \<open>[SOS]\<close> and the model is well-shaped (one non-empty
  row of hidden vectors for a batch of one decoder input, a non-empty projection), it
  returns a sequence that begins with the id of \<open>[SOS]\<close>, has at most \<open>max_len\<close> tokens,
  whose every later token is the first argmax of the projection of the last decoder
  position, with no end-of-sequence token before the last token, and which ends with the
  end-of-sequence token whenever it is shorter than \<open>max_len\<close>.
\<close>

theorem greedy_decode_terminates_and_decodes:
  assumes "1 \<le> max_len"
  shows "(\<exists>r. greedy_decode env model source source_mask tokenizer_src tokenizer_tgt max_len
              = Some r)
    \<and> (token_to_id tokenizer_tgt ''[SOS]'' = Some sos
         \<and> (\<forall>e m d dm. d \<noteq> [] \<longrightarrow> (\<exists>row. decode model e m [d] dm = [row] \<and> row \<noteq> []))
         \<and> (\<forall>h. project model h \<noteq> [])
       \<longrightarrow> (\<exists>ys. greedy_decode env model source source_mask tokenizer_src tokenizer_tgt max_len
                   = Some (Inr ys)
              \<and> ys \<noteq> [] \<and> hd ys = sos
              \<and> decoded_from env model (encode model source source_mask) source_mask
                   (token_to_id tokenizer_tgt ''[EOS]'') max_len 1 ys))"
proof (intro conjI impI)
  let ?enc = "encode model source source_mask"
  let ?eos = "token_to_id tokenizer_tgt ''[EOS]''"
  show "\<exists>r. greedy_decode env model source source_mask tokenizer_src tokenizer_tgt max_len
          = Some r"
  proof (cases "token_to_id tokenizer_tgt ''[SOS]''")
    case None
    then show ?thesis by (simp add: greedy_decode_def)
  next
    case (Some s)
    have "int (length [s]) \<le> max_len" using assms by simp
    from greedy_loop_returns[OF this, of env model ?enc source_mask ?eos] Some
    show ?thesis by (simp add: greedy_decode_def)
  qed
next
  let ?enc = "encode model source source_mask"
  let ?eos = "token_to_id tokenizer_tgt ''[EOS]''"
  assume h: "token_to_id tokenizer_tgt ''[SOS]'' = Some sos
    \<and> (\<forall>e m d dm. d \<noteq> [] \<longrightarrow> (\<exists>row. decode model e m [d] dm = [row] \<and> row \<noteq> []))
    \<and> (\<forall>h. project model h \<noteq> [])"
  then have shape: "\<forall>e m d dm. d \<noteq> [] \<longrightarrow> (\<exists>row. decode model e m [d] dm = [row] \<and> row \<noteq> [])"
    and proj: "\<forall>h. project model h \<noteq> []" by blast+
  have gd: "greedy_decode env model source source_mask tokenizer_src tokenizer_tgt max_len
      = greedy_loop env model ?enc source_mask ?eos max_len [sos]"
    using h by (simp add: greedy_decode_def)
  have le: "int (length [sos]) \<le> max_len" using assms by simp
  obtain r where r: "greedy_loop env model ?enc source_mask ?eos max_len [sos] = Some r"
    using greedy_loop_returns[OF le, of env model ?enc source_mask ?eos] by blast
  have "\<not> isl r"
  proof
    assume "isl r"
    then obtain e where "r = Inl e" by (cases r) auto
    with r greedy_loop_no_error[OF shape proj _ le, of env ?enc source_mask ?eos e]
    show False by simp
  qed
  then obtain ys where ys: "r = Inr ys" by (cases r) auto
  from greedy_loop_result[OF le r[unfolded ys]]
  have tk: "take 1 ys = [sos]"
    and df: "decoded_from env model ?enc source_mask ?eos max_len 1 ys" by simp_all
  from tk have "ys \<noteq> []" by auto
  moreover from tk have "hd ys = sos" by (cases ys) auto
  ultimately show "\<exists>ys. greedy_decode env model source source_mask tokenizer_src tokenizer_tgt
          max_len = Some (Inr ys)
       \<and> ys \<noteq> [] \<and> hd ys = sos
       \<and> decoded_from env model ?enc source_mask ?eos max_len 1 ys"
    using gd r ys df by simp
qed

theorem greedy_decode_terminates_and_decodes_witness:
  "(1::int) \<le> 5
   \<and> token_to_id toy_tokenizer ''[SOS]'' = Some 2
   \<and> (\<exists>ys. greedy_decode toy_env toy_net [[2, 4, 3]] [()] toy_tokenizer toy_tokenizer 5
              = Some (Inr ys)
         \<and> ys \<noteq> [] \<and> hd ys = 2
         \<and> decoded_from toy_env toy_net (encode toy_net [[2, 4, 3]] [()]) [()]
              (token_to_id toy_tokenizer ''[EOS]'') 5 1 ys)"
proof -
  have a: "(1::int) \<le> 5" by simp
  have b: "token_to_id toy_tokenizer ''[SOS]'' = Some 2"
    by (simp add: token_to_id_def toy_tokenizer_def)
  have c: "\<forall>e m d dm. d \<noteq> [] \<longrightarrow> (\<exists>row. decode toy_net e m [d] dm = [row] \<and> row \<noteq> [])"
    by (simp add: toy_net_def)
  have d: "\<forall>h. project toy_net h \<noteq> []" by (simp add: toy_net_def)
  from greedy_decode_terminates_and_decodes[OF a, of toy_env toy_net "[[2, 4, 3]]" "[()]"
      toy_tokenizer toy_tokenizer 2] a b c d
  show ?thesis by blast
qed

section \<open>The tokenizer is loaded when its file exists and built and saved otherwise\<close>

text \<open>
  C8. \<open>get_or_build_tokenizer\<close> loads the tokenizer from its file when the file exists
  (and returns the tokenizer stored there, leaving the files as they are); otherwise, for
  a dataset that has a sentence of the language in every item, it trains a word-level
  tokenizer whose unknown token is \<open>[UNK]\<close> and whose special tokens are \<open>[UNK]\<close>, \<open>[PAD]\<close>,
  \<open>[SOS]\<close> and \<open>[EOS]\<close>, saves it to that file and returns it.
\<close>

theorem get_or_build_tokenizer_loads_or_builds:
  "(\<forall>t. map_of fs (str_format env (cfg_tokenizer_file config) lang) = Some (TokenizerFile t)
        \<longrightarrow> get_or_build_tokenizer env config fs dataset lang = Inr (t, fs))
   \<and> (exists_path fs (str_format env (cfg_tokenizer_file config) lang)
        \<longrightarrow> get_or_build_tokenizer env config fs dataset lang
            = (case from_file fs (str_format env (cfg_tokenizer_file config) lang) of
                 Inl e \<Rightarrow> Inl e
               | Inr t \<Rightarrow> Inr (t, fs)))
   \<and> (\<not> exists_path fs (str_format env (cfg_tokenizer_file config) lang)
        \<longrightarrow> (\<forall>sentences. get_all_sentences dataset lang = Inr sentences
              \<longrightarrow> (\<exists>t. get_or_build_tokenizer env config fs dataset lang
                          = Inr (t, write_file fs (str_format env (cfg_tokenizer_file config) lang)
                                      (TokenizerFile t))
                      \<and> unk_token t = ''[UNK]''
                      \<and> special_tokens t = [''[UNK]'', ''[PAD]'', ''[SOS]'', ''[EOS]'']
                      \<and> pre_tokenizer t = Whitespace
                      \<and> vocab t = word_level_train env
                                    [''[UNK]'', ''[PAD]'', ''[SOS]'', ''[EOS]''] 2 sentences
                      \<and> from_file (write_file fs (str_format env (cfg_tokenizer_file config) lang)
                                      (TokenizerFile t))
                           (str_format env (cfg_tokenizer_file config) lang) = Inr t)))"
proof (intro conjI allI impI)
  fix t
  assume "map_of fs (str_format env (cfg_tokenizer_file config) lang) = Some (TokenizerFile t)"
  then show "get_or_build_tokenizer env config fs dataset lang = Inr (t, fs)"
    by (simp add: get_or_build_tokenizer_def Let_def exists_path_def from_file_def)
next
  assume "exists_path fs (str_format env (cfg_tokenizer_file config) lang)"
  then show "get_or_build_tokenizer env config fs dataset lang
            = (case from_file fs (str_format env (cfg_tokenizer_file config) lang) of
                 Inl e \<Rightarrow> Inl e
               | Inr t \<Rightarrow> Inr (t, fs))"
    by (simp add: get_or_build_tokenizer_def Let_def split: sum.splits)
next
  fix sentences
  assume "\<not> exists_path fs (str_format env (cfg_tokenizer_file config) lang)"
    and "get_all_sentences dataset lang = Inr sentences"
  then show "\<exists>t. get_or_build_tokenizer env config fs dataset lang
                          = Inr (t, write_file fs (str_format env (cfg_tokenizer_file config) lang)
                                      (TokenizerFile t))
                      \<and> unk_token t = ''[UNK]''
                      \<and> special_tokens t = [''[UNK]'', ''[PAD]'', ''[SOS]'', ''[EOS]'']
                      \<and> pre_tokenizer t = Whitespace
                      \<and> vocab t = word_level_train env
                                    [''[UNK]'', ''[PAD]'', ''[SOS]'', ''[EOS]''] 2 sentences
                      \<and> from_file (write_file fs (str_format env (cfg_tokenizer_file config) lang)
                                      (TokenizerFile t))
                           (str_format env (cfg_tokenizer_file config) lang) = Inr t"
    by (simp add: get_or_build_tokenizer_def Let_def write_file_def from_file_def)
qed

theorem get_or_build_tokenizer_loads_or_builds_witness:
  "get_or_build_tokenizer toy_env toy_config [(''tok_en'', TokenizerFile toy_tokenizer)]
      [[(''en'', ''a'')]] ''en''
     = Inr (toy_tokenizer, [(''tok_en'', TokenizerFile toy_tokenizer)])
   \<and> (\<exists>t. get_or_build_tokenizer toy_env toy_config ([] :: unit filesystem)
             [[(''en'', ''a'')]] ''en''
            = Inr (t, write_file [] ''tok_en'' (TokenizerFile t))
          \<and> unk_token t = ''[UNK]''
          \<and> special_tokens t = [''[UNK]'', ''[PAD]'', ''[SOS]'', ''[EOS]''])"
proof -
  have p: "str_format toy_env (cfg_tokenizer_file toy_config) ''en'' = ''tok_en''"
    by (simp add: toy_env_def toy_config_def)
  have l: "map_of [(''tok_en'', TokenizerFile toy_tokenizer) :: string \<times> unit file_content]
             (str_format toy_env (cfg_tokenizer_file toy_config) ''en'')
           = Some (TokenizerFile toy_tokenizer)"
    by (simp add: p)
  have n: "\<not> exists_path ([] :: unit filesystem)
               (str_format toy_env (cfg_tokenizer_file toy_config) ''en'')"
    by (simp add: exists_path_def)
  have s: "get_all_sentences [[(''en'', ''a'')]] ''en'' = Inr [''a'']" by simp
  from get_or_build_tokenizer_loads_or_builds
         [of "[(''tok_en'', TokenizerFile toy_tokenizer)]" toy_env toy_config "''en''"
             "[[(''en'', ''a'')]]"] l
  have a: "get_or_build_tokenizer toy_env toy_config [(''tok_en'', TokenizerFile toy_tokenizer)]
      [[(''en'', ''a'')]] ''en''
     = Inr (toy_tokenizer, [(''tok_en'', TokenizerFile toy_tokenizer)])" by blast
  from get_or_build_tokenizer_loads_or_builds
         [of "[] :: unit filesystem" toy_env toy_config "''en''" "[[(''en'', ''a'')]]"] n s
  have b: "\<exists>t. get_or_build_tokenizer toy_env toy_config ([] :: unit filesystem)
             [[(''en'', ''a'')]] ''en''
            = Inr (t, write_file [] (str_format toy_env (cfg_tokenizer_file toy_config) ''en'')
                        (TokenizerFile t))
          \<and> unk_token t = ''[UNK]''
          \<and> special_tokens t = [''[UNK]'', ''[PAD]'', ''[SOS]'', ''[EOS]'']" by blast
  from a b show ?thesis by (simp only: p)
qed

section \<open>The assertion on the batch size of validation cannot fail\<close>

lemma chunks_one: "xs' \<in> set (chunks (Suc 0) xs) \<Longrightarrow> length xs' = 1"
proof (induction "Suc 0" xs rule: chunks.induct)
  case (1 xs)
  show ?case
  proof (cases "xs = []")
    case True
    with "1.prems" show ?thesis by (subst (asm) chunks.simps) simp
  next
    case False
    with "1.prems" have "xs' = take (Suc 0) xs \<or> xs' \<in> set (chunks (Suc 0) (drop (Suc 0) xs))"
      by (subst (asm) chunks.simps) auto
    then show ?thesis
    proof
      assume "xs' = take (Suc 0) xs"
      with False show ?thesis by (cases xs) auto
    next
      assume "xs' \<in> set (chunks (Suc 0) (drop (Suc 0) xs))"
      with "1.hyps" False show ?thesis by simp
    qed
  qed
qed

lemma fetch_length: "fetch env d idxs = Inr batch \<Longrightarrow> length batch = length idxs"
  by (induction idxs arbitrary: batch) (auto split: sum.splits)

lemma fetch_error:
  "fetch env d idxs = Inl e \<Longrightarrow> \<exists>i \<in> set idxs. getitem env d i = Inl e"
  by (induction idxs) (auto split: sum.splits)

lemma next_word_not_assertion: "next_word env model enc sm dec \<noteq> Inl AssertionError"
  by (auto simp: next_word_def Let_def select_last_def torch_max_dim1_def tensor_item_def
      split: sum.splits list.splits if_splits)

lemma greedy_loop_not_assertion:
  assumes "greedy_loop env model enc sm eos max_len dec = Some r"
  shows "r \<noteq> Inl AssertionError"
proof (rule greedy_loop.raw_induct
    [where P = "\<lambda>env model enc sm eos max_len dec r. r \<noteq> Inl AssertionError", OF _ assms])
  fix gl and env :: "('a, 'b, 'c, 'd) env" and model :: "('a, 'b, 'c) seq2seq"
    and encoder_output source_mask eos_idx max_len decoder_input r
  assume IH: "\<And>model encoder_output source_mask eos_idx max_len decoder_input b y.
      gl model encoder_output source_mask eos_idx max_len decoder_input b = Some y
      \<Longrightarrow> y \<noteq> Inl AssertionError"
    and body: "(if int (length decoder_input) = max_len then Some (Inr decoder_input)
      else case next_word env model encoder_output source_mask decoder_input of
             Inl e \<Rightarrow> Some (Inl e)
           | Inr w \<Rightarrow>
               if Some w = eos_idx then Some (Inr (decoder_input @ [w]))
               else gl env model encoder_output source_mask eos_idx max_len
                      (decoder_input @ [w])) = Some r"
  show "r \<noteq> Inl AssertionError"
  proof (cases "int (length decoder_input) = max_len")
    case True
    with body show ?thesis by auto
  next
    case False
    show ?thesis
    proof (cases "next_word env model encoder_output source_mask decoder_input")
      case (Inl e)
      with False body
        next_word_not_assertion[of env model encoder_output source_mask decoder_input]
      show ?thesis by auto
    next
      case (Inr w)
      show ?thesis
      proof (cases "Some w = eos_idx")
        case True
        with False Inr body show ?thesis by auto
      next
        case False
        with \<open>int (length decoder_input) \<noteq> max_len\<close> Inr body
        have "gl env model encoder_output source_mask eos_idx max_len
                (decoder_input @ [w]) = Some r" by simp
        then show ?thesis by (rule IH)
      qed
    qed
  qed
qed

lemma greedy_decode_not_assertion:
  "greedy_decode env model source source_mask tokenizer_src tokenizer_tgt max_len
     \<noteq> Some (Inl AssertionError)"
proof (cases "token_to_id tokenizer_tgt ''[SOS]''")
  case None
  then show ?thesis by (simp add: greedy_decode_def)
next
  case (Some sos)
  then show ?thesis
    using greedy_loop_not_assertion[of env model "encode model source source_mask" source_mask
        "token_to_id tokenizer_tgt ''[EOS]''" max_len "[sos]" "Inl AssertionError"]
    by (auto simp: greedy_decode_def)
qed

lemma validation_loop_not_assertion:
  assumes "\<forall>d i. getitem env d i \<noteq> Inl AssertionError"
    and "\<forall>idxs \<in> set batches. length idxs = 1"
  shows "validation_loop env model d tokenizer_src tokenizer_tgt max_len num_examples count
           acc batches \<noteq> Some (Inl AssertionError)"
  using assms(2)
proof (induction batches arbitrary: count acc)
  case Nil
  then show ?case by simp
next
  case (Cons idxs rest)
  have one: "length idxs = 1" using Cons.prems by simp
  have rest: "\<forall>idxs \<in> set rest. length idxs = 1" using Cons.prems by simp
  show ?case
  proof (cases "fetch env d idxs")
    case (Inl e)
    with fetch_error[OF Inl] assms(1) have "e \<noteq> AssertionError" by auto
    with Inl show ?thesis by simp
  next
    case (Inr batch)
    have len: "length batch = 1" using fetch_length[OF Inr] one by simp
    let ?g = "greedy_decode env model (map ex_encoder_input batch) (map ex_encoder_mask batch)
                tokenizer_src tokenizer_tgt max_len"
    show ?thesis
    proof (cases ?g)
      case None
      with Inr len show ?thesis by (simp add: Let_def)
    next
      case (Some r)
      show ?thesis
      proof (cases r)
        case (Inl e)
        with Some greedy_decode_not_assertion[of env model "map ex_encoder_input batch"
            "map ex_encoder_mask batch" tokenizer_src tokenizer_tgt max_len]
        have "e \<noteq> AssertionError" by auto
        with Inr len Some Inl show ?thesis by (simp add: Let_def)
      next
        case (Inr model_out)
        with \<open>fetch env d idxs = Inr batch\<close> len Some Cons.IH[OF rest]
        show ?thesis by (simp add: Let_def split: prod.splits)
      qed
    qed
  qed
qed

lemma DataLoader_batch_size:
  "DataLoader d n sh = Inr dl \<Longrightarrow> dl_batch_size dl = n \<and> dl_dataset dl = d \<and> dl_shuffle dl = sh"
  by (auto simp: DataLoader_def split: if_splits)

lemma get_ds_val_loader:
  assumes "get_ds env config fs = Inr (train_dataloader, val_dataloader, tokenizer_src,
             tokenizer_tgt, fs')"
  shows "dl_batch_size val_dataloader = 1"
proof -
  from assms obtain d where "DataLoader d 1 True = Inr val_dataloader"
    unfolding get_ds_def Let_def
    by (simp split: sum.splits prod.splits if_splits)
  then show ?thesis by (simp add: DataLoader_batch_size)
qed

text \<open>
  C9. The validation loader that \<open>get_ds\<close> returns has batch size 1; every batch it yields
  has exactly one item, so the condition of the assertion of \<open>run_validation\<close> holds on
  every batch; and \<open>run_validation\<close> on that loader does not end in an \<open>AssertionError\<close>
  (the dataset items themselves raising none).
\<close>

theorem validation_batch_size_assertion_holds:
  assumes "get_ds env config fs = Inr (train_dataloader, val_dataloader, tokenizer_src,
             tokenizer_tgt, fs')"
  shows "dl_batch_size val_dataloader = 1
    \<and> (\<forall>idxs \<in> set (batch_indices env draw val_dataloader).
          \<forall>batch. fetch env (dl_dataset val_dataloader) idxs = Inr batch
            \<longrightarrow> length (map ex_encoder_input batch) = 1)
    \<and> ((\<forall>d i. getitem env d i \<noteq> Inl AssertionError)
         \<longrightarrow> run_validation env model st val_dataloader draw tokenizer_src tokenizer_tgt max_len
               step writer num_examples \<noteq> Some (Inl AssertionError))"
proof -
  have bs: "dl_batch_size val_dataloader = 1" using assms by (rule get_ds_val_loader)
  have ones: "\<forall>idxs \<in> set (batch_indices env draw val_dataloader). length idxs = 1"
    using bs chunks_one by (auto simp: batch_indices_def Let_def)
  have sizes: "\<forall>idxs \<in> set (batch_indices env draw val_dataloader).
          \<forall>batch. fetch env (dl_dataset val_dataloader) idxs = Inr batch
            \<longrightarrow> length (map ex_encoder_input batch) = 1"
    using ones fetch_length by fastforce
  have run: "run_validation env model st val_dataloader draw tokenizer_src tokenizer_tgt max_len
               step writer num_examples \<noteq> Some (Inl AssertionError)"
    if "\<forall>d i. getitem env d i \<noteq> Inl AssertionError"
    using validation_loop_not_assertion[OF that ones]
    by (auto simp: run_validation_def Let_def split: option.splits sum.splits prod.splits)
  from bs sizes run show ?thesis by blast
qed

lemma toy_get_ds:
  "\<exists>tdl vdl ts tt fs'. get_ds toy_env toy_config [] = Inr (tdl, vdl, ts, tt, fs')"
  by (simp add: get_ds_def toy_env_def toy_config_def get_or_build_tokenizer_def Let_def
      exists_path_def write_file_def from_file_def DataLoader_def)

theorem validation_batch_size_assertion_holds_witness:
  "\<exists>tdl vdl ts tt fs'. get_ds toy_env toy_config [] = Inr (tdl, vdl, ts, tt, fs')
     \<and> dl_batch_size vdl = 1
     \<and> run_validation toy_env toy_module toy_store vdl 0 ts tt 5 0 True 2
         \<noteq> Some (Inl AssertionError)"
proof -
  obtain tdl vdl ts tt fs'
    where g: "get_ds toy_env toy_config [] = Inr (tdl, vdl, ts, tt, fs')"
    using toy_get_ds by blast
  have n: "\<forall>d i. getitem toy_env d i \<noteq> Inl AssertionError" by (simp add: toy_env_def)
  from validation_batch_size_assertion_holds[OF g, of 0 toy_module toy_store 5 0 True 2] n
  have "dl_batch_size vdl = 1
     \<and> run_validation toy_env toy_module toy_store vdl 0 ts tt 5 0 True 2
         \<noteq> Some (Inl AssertionError)" by blast
  with g show ?thesis by blast
qed

end
